theory Spec2Isabelle
  imports Main "HOL-Library.AList" "HOL-Library.Product_Lexorder" "HOL-Library.Sublist"
begin

section \<open>Subscription billing engine: data model\<close>

text \<open>
  The development embeds \<^verbatim>\<open>scripts/subscription_cron.py\<close>. Persistent state is the
  content of the tables the SQL statements touch; the logger's output is part of the
  state as well, since it is the only record some failures leave. Python exceptions are
  values; every operation that can raise returns a sum paired with the state reached,
  because the writes made before a raise stay in the database.
\<close>

subsection \<open>Python values, exceptions, time\<close>

text \<open>Timestamps are microseconds since the epoch, the resolution of \<^verbatim>\<open>datetime\<close>.\<close>

type_synonym timestamp = int

definition timedelta_days :: "int \<Rightarrow> int" where
  "timedelta_days n = n * 86400000000"

definition interval_hours :: "int \<Rightarrow> int" where
  "interval_hours n = n * 3600000000"

text \<open>
  The two clocks the code reads: \<^verbatim>\<open>NOW()\<close> of the database server and
  \<^verbatim>\<open>datetime.now()\<close> of the process. Within one call of an orchestrator operation each
  clock is represented by one value.
\<close>

record clock =
  db_now :: timestamp
  py_now :: timestamp

text \<open>The exception classes that occur, and an exception with its \<^verbatim>\<open>str(e)\<close>.\<close>

datatype exc_class = GenericException | TypeError | TimeoutError | ClientError | ContentTypeError

datatype py_exception = PyExc exc_class string

fun py_str :: "py_exception \<Rightarrow> string" where
  "py_str (PyExc c m) = m"

type_synonym 'a result = "py_exception + 'a"

text \<open>
  The values of a JSON object as the gateway's response holds them (numbers and nested
  values are left out), and Python values as they occur in row dictionaries and event
  payloads. \<open>PyJsonText\<close> is a \<^verbatim>\<open>str\<close> holding JSON text read back from a json column.
\<close>

datatype json_atom = JNull | JBool bool | JStr string

type_synonym json_object = "(string \<times> json_atom) list"

datatype pyval =
    PyNone
  | PyBool bool
  | PyInt int
  | PyStr string
  | PyDatetime timestamp
  | PyJsonText pyval
  | PyDict "(string \<times> pyval) list"

fun py_of_json :: "json_atom \<Rightarrow> pyval" where
  "py_of_json JNull = PyNone"
| "py_of_json (JBool b) = PyBool b"
| "py_of_json (JStr s) = PyStr s"

definition py_of_json_object :: "json_object \<Rightarrow> pyval" where
  "py_of_json_object d = PyDict (map (\<lambda>(k, v). (k, py_of_json v)) d)"

text \<open>\<^verbatim>\<open>d.get(k)\<close> on a parsed JSON object: None for a missing key and for null.\<close>

definition json_get :: "json_object \<Rightarrow> string \<Rightarrow> json_atom option" where
  "json_get d k = (case map_of d k of Some JNull \<Rightarrow> None | x \<Rightarrow> x)"

text \<open>\<^verbatim>\<open>str(v)\<close> inside an f-string.\<close>

fun json_str :: "json_atom \<Rightarrow> string" where
  "json_str JNull = ''None''"
| "json_str (JBool b) = (if b then ''True'' else ''False'')"
| "json_str (JStr s) = s"

text \<open>
  \<^verbatim>\<open>json.dumps(v)\<close> with the default encoder succeeds on None, booleans, integers,
  strings and dictionaries of these, and raises TypeError on a \<^verbatim>\<open>datetime\<close>.
\<close>

fun json_serialisable :: "pyval \<Rightarrow> bool" where
  "json_serialisable PyNone = True"
| "json_serialisable (PyBool b) = True"
| "json_serialisable (PyInt i) = True"
| "json_serialisable (PyStr s) = True"
| "json_serialisable (PyDatetime t) = False"
| "json_serialisable (PyJsonText v) = True"
| "json_serialisable (PyDict kvs) = list_all (\<lambda>kv. json_serialisable (snd kv)) kvs"

text \<open>
  \<^verbatim>\<open>dict(row)\<close> of a record whose columns may share names: a key keeps the position
  of its first occurrence and the value of its last.
\<close>

definition py_dict :: "(string \<times> pyval) list \<Rightarrow> (string \<times> pyval) list" where
  "py_dict items = foldl (\<lambda>d (k, v). AList.update k v d) [] items"

definition py_opt :: "('a \<Rightarrow> pyval) \<Rightarrow> 'a option \<Rightarrow> pyval" where
  "py_opt f x = (case x of None \<Rightarrow> PyNone | Some v \<Rightarrow> f v)"

subsection \<open>Tables\<close>

text \<open>
  The rows of the tables, with the columns the SQL statements of the source name.
  Identifiers are strings, as the type annotations of the source have them; the
  identifier of an order comes from a sequence of the database. Amounts are passed
  through unchanged and are integers here. A column that may be NULL is an option.
\<close>

record subscription =
  s_id :: string
  s_user_id :: string
  s_tier_id :: string
  s_status :: string
  auto_renew :: bool
  current_period_start :: "timestamp option"
  current_period_end :: "timestamp option"
  trial_end :: "timestamp option"
  netopia_token :: "string option"
  cancel_effective_at :: "timestamp option"
  s_updated_at :: "timestamp option"

record subscription_tier =
  st_id :: string
  st_price :: int
  st_currency :: string
  st_interval :: string
  st_name :: string

text \<open>
  A row of \<^verbatim>\<open>SELECT s.*, st.price, st.currency, st.interval, st.name as tier_name\<close>,
  the dictionary the orchestrator calls \<^verbatim>\<open>subscription\<close>.
\<close>

record sub_row =
  sub :: subscription
  price :: int
  currency :: string
  interval :: string
  tier_name :: string

record order_metadata =
  md_subscription_id :: string
  md_tier_name :: string
  md_renewal :: bool
  md_auto_renewal :: bool

record order =
  o_id :: nat
  o_user_id :: string
  o_subscription_id :: "string option"
  o_amount :: int
  o_currency :: string
  o_status :: string
  o_netopia_order_id :: "json_atom option"
  o_metadata :: order_metadata
  o_created_at :: "timestamp option"
  o_updated_at :: "timestamp option"

text \<open>
  The dictionary given to \<^verbatim>\<open>log_payment_event\<close>; a key that is absent reads as None,
  \<^verbatim>\<open>raw_payload\<close> as the empty dictionary and \<^verbatim>\<open>retry_count\<close> as 0.
\<close>

record event_data =
  order_id :: "nat option"
  subscription_id :: "string option"
  event_type :: "string option"
  netopia_order_id :: "json_atom option"
  amount :: "int option"
  currency_of :: "string option"
  status :: "string option"
  raw_payload :: pyval
  retry_count :: int
  error_message :: "string option"
  processing_time_ms :: "int option"

definition empty_event :: event_data where
  "empty_event = \<lparr> order_id = None, subscription_id = None, event_type = None,
     netopia_order_id = None, amount = None, currency_of = None, status = None,
     raw_payload = PyDict [], retry_count = 0, error_message = None,
     processing_time_ms = None \<rparr>"

text \<open>A row of \<^verbatim>\<open>payment_logs\<close>: the event and its \<^verbatim>\<open>created_at\<close>.\<close>

record payment_log = event_data +
  created_at :: timestamp

record profile =
  p_id :: string
  subscription_tier :: string
  p_updated_at :: "timestamp option"

text \<open>The messages of the logger, one constructor for each message of the source.\<close>

datatype log_entry =
    ErrorCreatePayment py_exception
  | InfoProcessingBilling
  | InfoFoundDue nat
  | ErrorRenewalFailed string py_exception
  | ErrorBillingProcess py_exception
  | InfoProcessingRenewal string
  | InfoCreatedOrder nat
  | InfoRenewalOk string
  | InfoProcessingTrials
  | InfoFoundTrials nat
  | ErrorTrialFailed string py_exception
  | InfoProcessingTrialExpiration string
  | InfoCancelledNoPayment string
  | InfoChargedTrial string
  | InfoCancelledChargeFailed string
  | InfoProcessingRetries
  | InfoFoundFailed nat
  | ErrorRetryPaymentFailed "nat option" py_exception
  | InfoRetrying "nat option" int
  | InfoRetryAttempt int "nat option"
  | ErrorRetryFailed "nat option" py_exception
  | InfoStarting
  | InfoAllCompleted

record world =
  subscriptions :: "subscription list"
  subscription_tiers :: "subscription_tier list"
  orders :: "order list"
  order_seq :: nat
  payment_logs :: "payment_log list"
  profiles :: "profile list"
  log :: "log_entry list"

definition logger :: "log_entry \<Rightarrow> world \<Rightarrow> world" where
  "logger e w = w\<lparr> log := log w @ [e] \<rparr>"

record config =
  netopia_api_key :: string
  netopia_base_url :: string
  api_base_url :: string
  max_retry_attempts :: int

section \<open>Subscription repository (\<^verbatim>\<open>DatabaseManager\<close>)\<close>

text \<open>
  Every statement is run on the tables of the state. A statement that the driver or the
  server refuses (a lost connection, a violated constraint) is outside the model: the
  reads and writes below succeed, apart from the serialisation \<^verbatim>\<open>log_payment_event\<close>
  performs in Python before it reaches the database.
\<close>

subsection \<open>Read queries\<close>

text \<open>\<^verbatim>\<open>c <= NOW()\<close>: not true when the column is NULL.\<close>

definition at_or_before :: "timestamp option \<Rightarrow> timestamp \<Rightarrow> bool" where
  "at_or_before c now = (case c of None \<Rightarrow> False | Some t \<Rightarrow> t \<le> now)"

text \<open>The key of \<^verbatim>\<open>ORDER BY c ASC\<close>: ascending, NULL after every value.\<close>

definition nulls_last :: "timestamp option \<Rightarrow> bool \<times> timestamp" where
  "nulls_last c = (case c of None \<Rightarrow> (True, 0) | Some t \<Rightarrow> (False, t))"

text \<open>\<^verbatim>\<open>FROM subscriptions s JOIN subscription_tiers st ON s.tier_id = st.id\<close>.\<close>

definition join_tier :: "subscription_tier list \<Rightarrow> subscription \<Rightarrow> sub_row list" where
  "join_tier tiers s =
     map (\<lambda>st. \<lparr> sub = s, price = st_price st, currency = st_currency st,
                 interval = st_interval st, tier_name = st_name st \<rparr>)
         (filter (\<lambda>st. s_tier_id s = st_id st) tiers)"

definition joined_subscriptions :: "world \<Rightarrow> sub_row list" where
  "joined_subscriptions w = concat (map (join_tier (subscription_tiers w)) (subscriptions w))"

definition is_due :: "timestamp \<Rightarrow> subscription \<Rightarrow> bool" where
  "is_due now s \<longleftrightarrow>
     s_status s = ''ACTIVE'' \<and> auto_renew s \<and> at_or_before (current_period_end s) now
     \<and> netopia_token s \<noteq> None"

definition get_due_subscriptions :: "world \<Rightarrow> timestamp \<Rightarrow> sub_row list" where
  "get_due_subscriptions w now =
     sort_key (\<lambda>r. nulls_last (current_period_end (sub r)))
       (filter (\<lambda>r. is_due now (sub r)) (joined_subscriptions w))"

definition is_expired_trial :: "timestamp \<Rightarrow> subscription \<Rightarrow> bool" where
  "is_expired_trial now s \<longleftrightarrow> s_status s = ''TRIALING'' \<and> at_or_before (trial_end s) now"

definition get_trial_subscriptions :: "world \<Rightarrow> timestamp \<Rightarrow> sub_row list" where
  "get_trial_subscriptions w now =
     sort_key (\<lambda>r. nulls_last (trial_end (sub r)))
       (filter (\<lambda>r. is_expired_trial now (sub r)) (joined_subscriptions w))"

text \<open>
  A row of \<^verbatim>\<open>SELECT pl.*, o.*, s.* FROM payment_logs pl JOIN orders o ... LEFT JOIN
  subscriptions s ...\<close>: the event, its order, and the order's subscription when there
  is one.
\<close>

record failed_row =
  fp_log :: payment_log
  fp_order :: order
  fp_sub :: "subscription option"

definition left_join_sub :: "subscription list \<Rightarrow> payment_log \<Rightarrow> order \<Rightarrow> failed_row list" where
  "left_join_sub subs pl ord =
     (case filter (\<lambda>s. o_subscription_id ord = Some (s_id s)) subs of
        [] \<Rightarrow> [\<lparr> fp_log = pl, fp_order = ord, fp_sub = None \<rparr>]
      | ms \<Rightarrow> map (\<lambda>s. \<lparr> fp_log = pl, fp_order = ord, fp_sub = Some s \<rparr>) ms)"

definition joined_payment_logs :: "world \<Rightarrow> failed_row list" where
  "joined_payment_logs w =
     concat (map (\<lambda>pl. concat (map (left_join_sub (subscriptions w) pl)
                                   (filter (\<lambda>ord. order_id pl = Some (o_id ord)) (orders w))))
                 (payment_logs w))"

definition is_retryable :: "int \<Rightarrow> timestamp \<Rightarrow> payment_log \<Rightarrow> bool" where
  "is_retryable max_attempts now pl \<longleftrightarrow>
     event_type pl = Some ''PAYMENT_FAILED'' \<and> retry_count pl < max_attempts
     \<and> created_at pl \<ge> now - interval_hours 24"

definition get_failed_payments :: "config \<Rightarrow> world \<Rightarrow> timestamp \<Rightarrow> failed_row list" where
  "get_failed_payments cfg w now =
     sort_key (\<lambda>r. created_at (fp_log r))
       (filter (\<lambda>r. is_retryable (max_retry_attempts cfg) now (fp_log r)) (joined_payment_logs w))"

subsection \<open>Row dictionaries\<close>

text \<open>
  The queries return \<^verbatim>\<open>dict(row)\<close>. Timestamp columns arrive as \<^verbatim>\<open>datetime\<close>
  objects, json columns as text.
\<close>

definition subscription_items :: "subscription \<Rightarrow> (string \<times> pyval) list" where
  "subscription_items s =
     [(''id'', PyStr (s_id s)), (''user_id'', PyStr (s_user_id s)),
      (''tier_id'', PyStr (s_tier_id s)), (''status'', PyStr (s_status s)),
      (''auto_renew'', PyBool (auto_renew s)),
      (''current_period_start'', py_opt PyDatetime (current_period_start s)),
      (''current_period_end'', py_opt PyDatetime (current_period_end s)),
      (''trial_end'', py_opt PyDatetime (trial_end s)),
      (''netopia_token'', py_opt PyStr (netopia_token s)),
      (''cancel_effective_at'', py_opt PyDatetime (cancel_effective_at s)),
      (''updated_at'', py_opt PyDatetime (s_updated_at s))]"

definition null_subscription_items :: "(string \<times> pyval) list" where
  "null_subscription_items =
     map (\<lambda>k. (k, PyNone))
       [''id'', ''user_id'', ''tier_id'', ''status'', ''auto_renew'', ''current_period_start'',
        ''current_period_end'', ''trial_end'', ''netopia_token'', ''cancel_effective_at'',
        ''updated_at'']"

definition sub_row_dict :: "sub_row \<Rightarrow> pyval" where
  "sub_row_dict r =
     PyDict (py_dict (subscription_items (sub r) @
       [(''price'', PyInt (price r)), (''currency'', PyStr (currency r)),
        (''interval'', PyStr (interval r)), (''tier_name'', PyStr (tier_name r))]))"

definition payment_log_items :: "payment_log \<Rightarrow> (string \<times> pyval) list" where
  "payment_log_items pl =
     [(''order_id'', py_opt (\<lambda>n. PyInt (int n)) (order_id pl)),
      (''subscription_id'', py_opt PyStr (subscription_id pl)),
      (''event_type'', py_opt PyStr (event_type pl)),
      (''netopia_order_id'', py_opt py_of_json (netopia_order_id pl)),
      (''amount'', py_opt PyInt (amount pl)),
      (''currency'', py_opt PyStr (currency_of pl)),
      (''status'', py_opt PyStr (status pl)),
      (''raw_payload'', PyJsonText (raw_payload pl)),
      (''retry_count'', PyInt (retry_count pl)),
      (''error_message'', py_opt PyStr (error_message pl)),
      (''processing_time_ms'', py_opt PyInt (processing_time_ms pl)),
      (''created_at'', PyDatetime (created_at pl))]"

definition metadata_dict :: "order_metadata \<Rightarrow> pyval" where
  "metadata_dict md =
     PyDict [(''subscription_id'', PyStr (md_subscription_id md)),
             (''tier_name'', PyStr (md_tier_name md)),
             (''renewal'', PyBool (md_renewal md)),
             (''auto_renewal'', PyBool (md_auto_renewal md))]"

definition order_items :: "order \<Rightarrow> (string \<times> pyval) list" where
  "order_items ord =
     [(''id'', PyInt (int (o_id ord))), (''user_id'', PyStr (o_user_id ord)),
      (''subscription_id'', py_opt PyStr (o_subscription_id ord)),
      (''amount'', PyInt (o_amount ord)), (''currency'', PyStr (o_currency ord)),
      (''status'', PyStr (o_status ord)),
      (''netopia_order_id'', py_opt py_of_json (o_netopia_order_id ord)),
      (''metadata'', PyJsonText (metadata_dict (o_metadata ord))),
      (''created_at'', py_opt PyDatetime (o_created_at ord)),
      (''updated_at'', py_opt PyDatetime (o_updated_at ord))]"

definition failed_row_dict :: "failed_row \<Rightarrow> pyval" where
  "failed_row_dict r =
     PyDict (py_dict (payment_log_items (fp_log r) @ order_items (fp_order r) @
       (case fp_sub r of None \<Rightarrow> null_subscription_items | Some s \<Rightarrow> subscription_items s)))"

text \<open>
  The keys \<^verbatim>\<open>_retry_payment\<close> reads from that dictionary. \<^verbatim>\<open>order_id\<close> and
  \<^verbatim>\<open>retry_count\<close> are columns of \<^verbatim>\<open>payment_logs\<close> only; \<^verbatim>\<open>subscription_id\<close> is a
  column of \<^verbatim>\<open>payment_logs\<close> and of \<^verbatim>\<open>orders\<close>, and the later one is the value kept.
\<close>

definition payment_order_id :: "failed_row \<Rightarrow> nat option" where
  "payment_order_id r = order_id (fp_log r)"

definition payment_subscription_id :: "failed_row \<Rightarrow> string option" where
  "payment_subscription_id r = o_subscription_id (fp_order r)"

definition payment_retry_count :: "failed_row \<Rightarrow> int" where
  "payment_retry_count r = retry_count (fp_log r)"

subsection \<open>Writes\<close>

text \<open>\<^verbatim>\<open>create_renewal_order\<close>: one PENDING order, its identifier returned.\<close>

definition create_renewal_order :: "timestamp \<Rightarrow> sub_row \<Rightarrow> int \<Rightarrow> world \<Rightarrow> nat \<times> world" where
  "create_renewal_order now subscription amt w =
     (let new_id = order_seq w;
          ord = \<lparr> o_id = new_id, o_user_id = s_user_id (sub subscription),
                  o_subscription_id = Some (s_id (sub subscription)), o_amount = amt,
                  o_currency = currency subscription, o_status = ''PENDING'',
                  o_netopia_order_id = None,
                  o_metadata = \<lparr> md_subscription_id = s_id (sub subscription),
                                 md_tier_name = tier_name subscription,
                                 md_renewal = True, md_auto_renewal = True \<rparr>,
                  o_created_at = Some now, o_updated_at = Some now \<rparr>
      in (new_id, w\<lparr> orders := orders w @ [ord], order_seq := Suc (order_seq w) \<rparr>))"

text \<open>\<^verbatim>\<open>update_subscription_period\<close>.\<close>

definition update_subscription_period :: "timestamp \<Rightarrow> string \<Rightarrow> timestamp \<Rightarrow> world \<Rightarrow> world" where
  "update_subscription_period now sid new_period_end w =
     w\<lparr> subscriptions :=
          map (\<lambda>s. if s_id s = sid
                   then s\<lparr> current_period_start := Some now,
                           current_period_end := Some new_period_end,
                           s_updated_at := Some now \<rparr>
                   else s) (subscriptions w) \<rparr>"

text \<open>
  \<^verbatim>\<open>log_payment_event\<close>: the payload goes through \<^verbatim>\<open>json.dumps\<close> while the arguments
  of the INSERT are built, so a payload that cannot be serialised raises before any row
  is written.
\<close>

definition log_payment_event :: "timestamp \<Rightarrow> event_data \<Rightarrow> world \<Rightarrow> unit result \<times> world" where
  "log_payment_event now ev w =
     (if json_serialisable (raw_payload ev)
      then (Inr (),
            w\<lparr> payment_logs := payment_logs w @
                 [\<lparr> order_id = order_id ev, subscription_id = subscription_id ev,
                    event_type = event_type ev, netopia_order_id = netopia_order_id ev,
                    amount = amount ev, currency_of = currency_of ev, status = status ev,
                    raw_payload = raw_payload ev, retry_count = retry_count ev,
                    error_message = error_message ev,
                    processing_time_ms = processing_time_ms ev, created_at = now \<rparr>] \<rparr>)
      else (Inl (PyExc TypeError ''Object of type datetime is not JSON serializable''), w))"

text \<open>\<^verbatim>\<open>update_order_status\<close>.\<close>

definition update_order_status ::
  "timestamp \<Rightarrow> nat \<Rightarrow> string \<Rightarrow> json_atom option \<Rightarrow> world \<Rightarrow> world" where
  "update_order_status now oid st nid w =
     w\<lparr> orders :=
          map (\<lambda>ord. if o_id ord = oid
                     then ord\<lparr> o_status := st, o_netopia_order_id := nid,
                               o_updated_at := Some now \<rparr>
                     else ord) (orders w) \<rparr>"

text \<open>
  \<^verbatim>\<open>cancel_subscription\<close>. The sub-select of the second statement yields the user of
  the subscription, NULL when there is no such subscription.
\<close>

definition subscription_user :: "world \<Rightarrow> string \<Rightarrow> string option" where
  "subscription_user w sid = map_option s_user_id (find (\<lambda>s. s_id s = sid) (subscriptions w))"

definition cancel_subscription :: "timestamp \<Rightarrow> string \<Rightarrow> string \<Rightarrow> world \<Rightarrow> unit result \<times> world" where
  "cancel_subscription now sid reason w =
     (let w1 = w\<lparr> subscriptions :=
                   map (\<lambda>s. if s_id s = sid
                            then s\<lparr> s_status := ''CANCELED'', cancel_effective_at := Some now,
                                    s_updated_at := Some now \<rparr>
                            else s) (subscriptions w) \<rparr>;
          w2 = w1\<lparr> profiles :=
                    map (\<lambda>p. if Some (p_id p) = subscription_user w1 sid
                             then p\<lparr> subscription_tier := ''free'', p_updated_at := Some now \<rparr>
                             else p) (profiles w1) \<rparr>
      in log_payment_event now
           (empty_event\<lparr> subscription_id := Some sid,
                         event_type := Some ''SUBSCRIPTION_CANCELED'',
                         status := Some ''CANCELED'',
                         raw_payload := PyDict [(''reason'', PyStr reason),
                                                (''auto_cancel'', PyBool True)] \<rparr>) w2)"

section \<open>Gateway client (\<^verbatim>\<open>NetopiaClient\<close>)\<close>

text \<open>
  The provider is the environment: a function from the request to what the HTTP call
  does. Either \<^verbatim>\<open>session.post\<close> raises (no answer within the timeout, a transport
  error; building the encrypted payload raising is the same branch), or a response with
  a status arrives, whose body \<^verbatim>\<open>response.json()\<close> parses to an object or rejects by
  raising. Encryption, signature and the request's own timestamps are not interpreted:
  the environment sees the order data.
\<close>

record billing_info =
  bi_type :: string
  first_name :: string
  last_name :: string
  email :: string
  mobile_phone :: string

record order_data =
  od_order_id :: nat
  od_subscription_id :: string
  od_amount :: int
  od_currency :: string
  od_billing_info :: billing_info

record http_request =
  rq_url :: string
  rq_bearer :: string
  rq_return_url :: string
  rq_confirm_url :: string
  rq_order :: order_data
  rq_timeout :: nat

datatype response_body = JsonRaises py_exception | JsonObject json_object

datatype http_outcome = PostRaises py_exception | Responded nat response_body

type_synonym gateway = "http_request \<Rightarrow> http_outcome"

definition payment_request :: "config \<Rightarrow> order_data \<Rightarrow> http_request" where
  "payment_request cfg od =
     \<lparr> rq_url = netopia_base_url cfg @ ''/api/v1/payments'',
       rq_bearer = netopia_api_key cfg,
       rq_return_url = api_base_url cfg @ ''/payment/success'',
       rq_confirm_url = api_base_url cfg @ ''/webhook/netopia/ipn'',
       rq_order = od,
       rq_timeout = 30 \<rparr>"

text \<open>
  \<^verbatim>\<open>create_recurring_payment\<close>. The body is parsed before the status is looked at;
  every exception is logged and raised again as it is.
\<close>

definition create_recurring_payment ::
  "config \<Rightarrow> gateway \<Rightarrow> order_data \<Rightarrow> world \<Rightarrow> json_object result \<times> world" where
  "create_recurring_payment cfg gw od w =
     (case gw (payment_request cfg od) of
        PostRaises e \<Rightarrow> (Inl e, logger (ErrorCreatePayment e) w)
      | Responded st body \<Rightarrow>
          (case body of
             JsonRaises e \<Rightarrow> (Inl e, logger (ErrorCreatePayment e) w)
           | JsonObject result \<Rightarrow>
               if st \<noteq> 200
               then (let e = PyExc GenericException
                               (''Netopia API error: '' @
                                  (case map_of result ''message'' of
                                     None \<Rightarrow> ''Unknown error''
                                   | Some v \<Rightarrow> json_str v))
                     in (Inl e, logger (ErrorCreatePayment e) w))
               else (Inr result, w)))"

section \<open>Billing orchestrator and job runner (\<^verbatim>\<open>SubscriptionCronManager\<close>)\<close>

text \<open>
  The methods \<^verbatim>\<open>_process_subscription_renewal\<close>, \<^verbatim>\<open>_process_trial_expiration\<close> and
  \<^verbatim>\<open>_retry_payment\<close> appear without their leading underscore.
\<close>

definition interval_length :: "string \<Rightarrow> int" where
  "interval_length i =
     (if i = ''MONTHLY'' then timedelta_days 30
      else if i = ''YEARLY'' then timedelta_days 365
      else timedelta_days 30)"

definition renewal_order_data :: "sub_row \<Rightarrow> nat \<Rightarrow> order_data" where
  "renewal_order_data subscription oid =
     \<lparr> od_order_id = oid,
       od_subscription_id = s_id (sub subscription),
       od_amount = price subscription,
       od_currency = currency subscription,
       od_billing_info =
         \<lparr> bi_type = ''person'', first_name = ''Recurring'', last_name = ''Payment'',
           email = ''recurring-'' @ s_id (sub subscription) @ ''@monitoruloficial.ro'',
           mobile_phone = ''0000000000'' \<rparr> \<rparr>"

definition renewal_success_event :: "sub_row \<Rightarrow> nat \<Rightarrow> json_object \<Rightarrow> event_data" where
  "renewal_success_event subscription oid payment_result =
     empty_event\<lparr> order_id := Some oid,
                  subscription_id := Some (s_id (sub subscription)),
                  event_type := Some ''AUTO_RENEWAL_ATTEMPTED'',
                  netopia_order_id := json_get payment_result ''netopia_order_id'',
                  amount := Some (price subscription),
                  currency_of := Some (currency subscription),
                  status := Some ''SUCCESS'',
                  raw_payload := py_of_json_object payment_result \<rparr>"

definition process_subscription_renewal ::
  "config \<Rightarrow> gateway \<Rightarrow> clock \<Rightarrow> sub_row \<Rightarrow> world \<Rightarrow> unit result \<times> world" where
  "process_subscription_renewal cfg gw clk subscription w =
     (let sid = s_id (sub subscription);
          w1 = logger (InfoProcessingRenewal sid) w;
          (oid, w2) = create_renewal_order (db_now clk) subscription (price subscription) w1;
          w3 = logger (InfoCreatedOrder oid) w2
      in case create_recurring_payment cfg gw (renewal_order_data subscription oid) w3 of
           (Inl e, w4) \<Rightarrow> (Inl e, logger (ErrorRenewalFailed sid e) w4)
         | (Inr payment_result, w4) \<Rightarrow>
             (let w5 = update_order_status (db_now clk) oid ''PROCESSING''
                         (json_get payment_result ''netopia_order_id'') w4;
                  new_period_end = py_now clk + interval_length (interval subscription);
                  w6 = update_subscription_period (db_now clk) sid new_period_end w5
              in case log_payment_event (db_now clk)
                        (renewal_success_event subscription oid payment_result) w6 of
                   (Inl e, w7) \<Rightarrow> (Inl e, logger (ErrorRenewalFailed sid e) w7)
                 | (Inr u, w7) \<Rightarrow> (Inr (), logger (InfoRenewalOk sid) w7)))"

text \<open>
  One turn of the loop of \<^verbatim>\<open>process_recurring_billing\<close>: the renewal and the handler
  of its exception. An exception raised inside the handler leaves the loop.
\<close>

definition renewal_failed_event :: "sub_row \<Rightarrow> py_exception \<Rightarrow> event_data" where
  "renewal_failed_event subscription e =
     empty_event\<lparr> subscription_id := Some (s_id (sub subscription)),
                  event_type := Some ''AUTO_RENEWAL_FAILED'',
                  status := Some ''FAILED'',
                  error_message := Some (py_str e),
                  raw_payload := PyDict [(''subscription'', sub_row_dict subscription)] \<rparr>"

definition renew_item ::
  "config \<Rightarrow> gateway \<Rightarrow> clock \<Rightarrow> sub_row \<Rightarrow> world \<Rightarrow> unit result \<times> world" where
  "renew_item cfg gw clk subscription w =
     (case process_subscription_renewal cfg gw clk subscription w of
        (Inr u, w1) \<Rightarrow> (Inr (), w1)
      | (Inl e, w1) \<Rightarrow>
          log_payment_event (db_now clk) (renewal_failed_event subscription e)
            (logger (ErrorRenewalFailed (s_id (sub subscription)) e) w1))"

fun renew_all ::
  "config \<Rightarrow> gateway \<Rightarrow> clock \<Rightarrow> sub_row list \<Rightarrow> world \<Rightarrow> unit result \<times> world" where
  "renew_all cfg gw clk [] w = (Inr (), w)"
| "renew_all cfg gw clk (subscription # rest) w =
     (case renew_item cfg gw clk subscription w of
        (Inl e, w1) \<Rightarrow> (Inl e, w1)
      | (Inr u, w1) \<Rightarrow> renew_all cfg gw clk rest w1)"

definition process_recurring_billing :: "config \<Rightarrow> gateway \<Rightarrow> clock \<Rightarrow> world \<Rightarrow> world" where
  "process_recurring_billing cfg gw clk w =
     (let w1 = logger InfoProcessingBilling w;
          due_subscriptions = get_due_subscriptions w1 (db_now clk);
          w2 = logger (InfoFoundDue (length due_subscriptions)) w1
      in case renew_all cfg gw clk due_subscriptions w2 of
           (Inl e, w3) \<Rightarrow> logger (ErrorBillingProcess e) w3
         | (Inr u, w3) \<Rightarrow> w3)"

text \<open>\<^verbatim>\<open>_process_trial_expiration\<close>; a token that is None or empty is no payment method.\<close>

definition has_token :: "sub_row \<Rightarrow> bool" where
  "has_token subscription =
     (case netopia_token (sub subscription) of None \<Rightarrow> False | Some t \<Rightarrow> t \<noteq> [])"

definition process_trial_expiration ::
  "config \<Rightarrow> gateway \<Rightarrow> clock \<Rightarrow> sub_row \<Rightarrow> world \<Rightarrow> unit result \<times> world" where
  "process_trial_expiration cfg gw clk subscription w =
     (let sid = s_id (sub subscription);
          w1 = logger (InfoProcessingTrialExpiration sid) w
      in if \<not> has_token subscription
         then (case cancel_subscription (db_now clk) sid ''Trial expired - no payment method'' w1 of
                 (Inl e, w2) \<Rightarrow> (Inl e, w2)
               | (Inr u, w2) \<Rightarrow> (Inr (), logger (InfoCancelledNoPayment sid) w2))
         else (case process_subscription_renewal cfg gw clk subscription w1 of
                 (Inr u, w2) \<Rightarrow> (Inr (), logger (InfoChargedTrial sid) w2)
               | (Inl e, w2) \<Rightarrow>
                   (case cancel_subscription (db_now clk) sid
                           (''Trial expired - charge failed: '' @ py_str e) w2 of
                      (Inl e2, w3) \<Rightarrow> (Inl e2, w3)
                    | (Inr u, w3) \<Rightarrow> (Inr (), logger (InfoCancelledChargeFailed sid) w3))))"

fun expire_all :: "config \<Rightarrow> gateway \<Rightarrow> clock \<Rightarrow> sub_row list \<Rightarrow> world \<Rightarrow> world" where
  "expire_all cfg gw clk [] w = w"
| "expire_all cfg gw clk (subscription # rest) w =
     (case process_trial_expiration cfg gw clk subscription w of
        (Inl e, w1) \<Rightarrow>
          expire_all cfg gw clk rest (logger (ErrorTrialFailed (s_id (sub subscription)) e) w1)
      | (Inr u, w1) \<Rightarrow> expire_all cfg gw clk rest w1)"

definition process_trial_periods :: "config \<Rightarrow> gateway \<Rightarrow> clock \<Rightarrow> world \<Rightarrow> world" where
  "process_trial_periods cfg gw clk w =
     (let w1 = logger InfoProcessingTrials w;
          trial_subscriptions = get_trial_subscriptions w1 (db_now clk);
          w2 = logger (InfoFoundTrials (length trial_subscriptions)) w1
      in expire_all cfg gw clk trial_subscriptions w2)"

text \<open>\<^verbatim>\<open>_retry_payment\<close>: the attempt is logged; there is no call of the gateway.\<close>

definition retry_event :: "failed_row \<Rightarrow> event_data" where
  "retry_event payment =
     empty_event\<lparr> order_id := payment_order_id payment,
                  subscription_id := payment_subscription_id payment,
                  event_type := Some ''PAYMENT_RETRY'',
                  retry_count := payment_retry_count payment + 1,
                  status := Some ''RETRYING'',
                  raw_payload := PyDict [(''original_payment'', failed_row_dict payment)] \<rparr>"

definition retry_payment :: "clock \<Rightarrow> failed_row \<Rightarrow> world \<Rightarrow> unit result \<times> world" where
  "retry_payment clk payment w =
     (let oid = payment_order_id payment;
          retry_cnt = payment_retry_count payment + 1;
          w1 = logger (InfoRetrying oid retry_cnt) w
      in case log_payment_event (db_now clk) (retry_event payment) w1 of
           (Inl e, w2) \<Rightarrow> (Inl e, logger (ErrorRetryFailed oid e) w2)
         | (Inr u, w2) \<Rightarrow> (Inr (), logger (InfoRetryAttempt retry_cnt oid) w2))"

fun retry_all :: "clock \<Rightarrow> failed_row list \<Rightarrow> world \<Rightarrow> world" where
  "retry_all clk [] w = w"
| "retry_all clk (payment # rest) w =
     (case retry_payment clk payment w of
        (Inl e, w1) \<Rightarrow>
          retry_all clk rest (logger (ErrorRetryPaymentFailed (payment_order_id payment) e) w1)
      | (Inr u, w1) \<Rightarrow> retry_all clk rest w1)"

definition process_payment_retries :: "config \<Rightarrow> clock \<Rightarrow> world \<Rightarrow> world" where
  "process_payment_retries cfg clk w =
     (let w1 = logger InfoProcessingRetries w;
          failed_payments = get_failed_payments cfg w1 (db_now clk);
          w2 = logger (InfoFoundFailed (length failed_payments)) w1
      in retry_all clk failed_payments w2)"

text \<open>
  \<^verbatim>\<open>run_all_jobs\<close>. None of the three jobs lets an exception out, so the handler of
  \<^verbatim>\<open>run_all_jobs\<close> is never entered; the method returns None.
\<close>

definition run_all_jobs :: "config \<Rightarrow> gateway \<Rightarrow> clock \<Rightarrow> world \<Rightarrow> unit result \<times> world" where
  "run_all_jobs cfg gw clk w =
     (let w1 = logger InfoStarting w;
          w2 = process_recurring_billing cfg gw clk w1;
          w3 = process_trial_periods cfg gw clk w2;
          w4 = process_payment_retries cfg clk w3
      in (Inr (), logger InfoAllCompleted w4))"

section \<open>Scenarios\<close>

text \<open>
  The configuration and the rows of the repository's test doubles and of the scenarios
  of the specification, at a fixed instant: an active subscription whose period ended a
  day ago, a trial without a token and a trial with a token that both ended an hour ago,
  and a failed payment event with one retry, two hours old.
\<close>

definition cfg0 :: config where
  "cfg0 = \<lparr> netopia_api_key = ''test_api_key'', netopia_base_url = ''https://test.mobilpay.ro'',
            api_base_url = ''https://test.api.com'', max_retry_attempts = 3 \<rparr>"

definition t0 :: timestamp where
  "t0 = 1700000000000000"

definition clock0 :: clock where
  "clock0 = \<lparr> db_now = t0, py_now = t0 + 250000 \<rparr>"

definition tier_pro :: subscription_tier where
  "tier_pro = \<lparr> st_id = ''tier_1'', st_price = 2999, st_currency = ''RON'',
                st_interval = ''MONTHLY'', st_name = ''pro'' \<rparr>"

definition sub_1 :: subscription where
  "sub_1 = \<lparr> s_id = ''sub_1'', s_user_id = ''user_1'', s_tier_id = ''tier_1'',
             s_status = ''ACTIVE'', auto_renew = True,
             current_period_start = Some (t0 - timedelta_days 31),
             current_period_end = Some (t0 - timedelta_days 1), trial_end = None,
             netopia_token = Some ''token_123'', cancel_effective_at = None,
             s_updated_at = None \<rparr>"

definition sub_2 :: subscription where
  "sub_2 = \<lparr> s_id = ''sub_2'', s_user_id = ''user_2'', s_tier_id = ''tier_1'',
             s_status = ''TRIALING'', auto_renew = True,
             current_period_start = None, current_period_end = None,
             trial_end = Some (t0 - interval_hours 1),
             netopia_token = None, cancel_effective_at = None, s_updated_at = None \<rparr>"

definition sub_3 :: subscription where
  "sub_3 = \<lparr> s_id = ''sub_3'', s_user_id = ''user_3'', s_tier_id = ''tier_1'',
             s_status = ''TRIALING'', auto_renew = True,
             current_period_start = None, current_period_end = None,
             trial_end = Some (t0 - interval_hours 1),
             netopia_token = Some ''token_456'', cancel_effective_at = None,
             s_updated_at = None \<rparr>"

definition row_of :: "subscription \<Rightarrow> sub_row" where
  "row_of s = \<lparr> sub = s, price = 2999, currency = ''RON'', interval = ''MONTHLY'',
                tier_name = ''pro'' \<rparr>"

definition order_7 :: order where
  "order_7 = \<lparr> o_id = 7, o_user_id = ''user_1'', o_subscription_id = Some ''sub_1'',
               o_amount = 2999, o_currency = ''RON'', o_status = ''PENDING'',
               o_netopia_order_id = None,
               o_metadata = \<lparr> md_subscription_id = ''sub_1'', md_tier_name = ''pro'',
                              md_renewal = True, md_auto_renewal = True \<rparr>,
               o_created_at = Some (t0 - interval_hours 2),
               o_updated_at = Some (t0 - interval_hours 2) \<rparr>"

definition event_1 :: payment_log where
  "event_1 = \<lparr> order_id = Some 7, subscription_id = Some ''sub_1'',
               event_type = Some ''PAYMENT_FAILED'', netopia_order_id = None,
               amount = Some 2999, currency_of = Some ''RON'', status = Some ''FAILED'',
               raw_payload = PyDict [], retry_count = 1,
               error_message = Some ''Card declined'', processing_time_ms = None,
               created_at = t0 - interval_hours 2 \<rparr>"

definition profile_of :: "string \<Rightarrow> profile" where
  "profile_of u = \<lparr> p_id = u, subscription_tier = ''pro'', p_updated_at = None \<rparr>"

definition world0 :: world where
  "world0 = \<lparr> subscriptions = [sub_1, sub_2, sub_3], subscription_tiers = [tier_pro],
              orders = [order_7], order_seq = 8, payment_logs = [event_1],
              profiles = [profile_of ''user_1'', profile_of ''user_2'', profile_of ''user_3''],
              log = [] \<rparr>"

definition gw_accept :: gateway where
  "gw_accept rq = Responded 200 (JsonObject [(''success'', JBool True),
     (''netopia_order_id'', JStr ''G-1''), (''status'', JStr ''PROCESSING'')])"

definition gw_decline :: gateway where
  "gw_decline rq = Responded 402 (JsonObject [(''message'', JStr ''Card declined'')])"

definition gw_bad_gateway :: gateway where
  "gw_bad_gateway rq = Responded 502 (JsonRaises (PyExc ContentTypeError ''unexpected mimetype: text/html''))"

definition gw_timeout :: gateway where
  "gw_timeout rq = PostRaises (PyExc TimeoutError [])"

text \<open>
  A second failed event, on an order that belongs to no subscription and whose timestamps
  are NULL, and the rows the retry query builds for the two events.
\<close>

definition order_9 :: order where
  "order_9 = \<lparr> o_id = 9, o_user_id = ''user_4'', o_subscription_id = None,
               o_amount = 500, o_currency = ''RON'', o_status = ''PENDING'',
               o_netopia_order_id = None,
               o_metadata = \<lparr> md_subscription_id = [], md_tier_name = [],
                              md_renewal = False, md_auto_renewal = False \<rparr>,
               o_created_at = None, o_updated_at = None \<rparr>"

definition event_2 :: payment_log where
  "event_2 = \<lparr> order_id = Some 9, subscription_id = None,
               event_type = Some ''PAYMENT_FAILED'', netopia_order_id = None,
               amount = Some 500, currency_of = Some ''RON'', status = Some ''FAILED'',
               raw_payload = PyDict [], retry_count = 1,
               error_message = Some ''Card declined'', processing_time_ms = None,
               created_at = t0 - interval_hours 2 \<rparr>"

definition world1 :: world where
  "world1 = world0\<lparr> orders := [order_7, order_9], order_seq := 10,
                     payment_logs := [event_1, event_2] \<rparr>"

definition failed_row_1 :: failed_row where
  "failed_row_1 = \<lparr> fp_log = event_1, fp_order = order_7, fp_sub = Some sub_1 \<rparr>"

definition failed_row_2 :: failed_row where
  "failed_row_2 = \<lparr> fp_log = event_2, fp_order = order_9, fp_sub = None \<rparr>"

text \<open>The log messages that open a job.\<close>

fun job_start :: "log_entry \<Rightarrow> bool" where
  "job_start InfoProcessingBilling = True"
| "job_start InfoProcessingTrials = True"
| "job_start InfoProcessingRetries = True"
| "job_start e = False"

text \<open>
  A proof device: the log of the second state extends the log of the first by messages
  none of which opens a job.
\<close>

definition quiet_step :: "world \<Rightarrow> world \<Rightarrow> bool" where
  "quiet_step w w' \<longleftrightarrow> (\<exists>xs. log w' = log w @ xs \<and> filter job_start xs = [])"

section \<open>Frame lemmas\<close>

text \<open>What each operation leaves alone, and the two ways a renewal can go.\<close>

lemma logger_fields [simp]:
  "subscriptions (logger e w) = subscriptions w"
  "subscription_tiers (logger e w) = subscription_tiers w"
  "orders (logger e w) = orders w"
  "order_seq (logger e w) = order_seq w"
  "payment_logs (logger e w) = payment_logs w"
  "profiles (logger e w) = profiles w"
  "log (logger e w) = log w @ [e]"
  by (simp_all add: logger_def)

lemma json_object_serialisable [simp]: "json_serialisable (py_of_json_object body)"
proof -
  have "json_serialisable (py_of_json v)" for v
    by (cases v) simp_all
  then show ?thesis
    by (induction body) (auto simp: py_of_json_object_def)
qed

lemma create_renewal_order_fields [simp]:
  "fst (create_renewal_order now r a w) = order_seq w"
  "subscriptions (snd (create_renewal_order now r a w)) = subscriptions w"
  "subscription_tiers (snd (create_renewal_order now r a w)) = subscription_tiers w"
  "payment_logs (snd (create_renewal_order now r a w)) = payment_logs w"
  "profiles (snd (create_renewal_order now r a w)) = profiles w"
  "log (snd (create_renewal_order now r a w)) = log w"
  by (simp_all add: create_renewal_order_def Let_def)

lemma update_order_status_fields [simp]:
  "subscriptions (update_order_status now oid st nid w) = subscriptions w"
  "subscription_tiers (update_order_status now oid st nid w) = subscription_tiers w"
  "payment_logs (update_order_status now oid st nid w) = payment_logs w"
  "profiles (update_order_status now oid st nid w) = profiles w"
  "log (update_order_status now oid st nid w) = log w"
  by (simp_all add: update_order_status_def)

lemma update_subscription_period_fields [simp]:
  "subscription_tiers (update_subscription_period now sid e w) = subscription_tiers w"
  "orders (update_subscription_period now sid e w) = orders w"
  "payment_logs (update_subscription_period now sid e w) = payment_logs w"
  "profiles (update_subscription_period now sid e w) = profiles w"
  "log (update_subscription_period now sid e w) = log w"
  by (simp_all add: update_subscription_period_def)

lemma log_payment_event_fields [simp]:
  "subscriptions (snd (log_payment_event now ev w)) = subscriptions w"
  "subscription_tiers (snd (log_payment_event now ev w)) = subscription_tiers w"
  "orders (snd (log_payment_event now ev w)) = orders w"
  "profiles (snd (log_payment_event now ev w)) = profiles w"
  "log (snd (log_payment_event now ev w)) = log w"
  by (simp_all add: log_payment_event_def)

lemma create_recurring_payment_fields [simp]:
  "subscriptions (snd (create_recurring_payment cfg gw od w)) = subscriptions w"
  "subscription_tiers (snd (create_recurring_payment cfg gw od w)) = subscription_tiers w"
  "orders (snd (create_recurring_payment cfg gw od w)) = orders w"
  "payment_logs (snd (create_recurring_payment cfg gw od w)) = payment_logs w"
  "profiles (snd (create_recurring_payment cfg gw od w)) = profiles w"
  by (simp_all add: create_recurring_payment_def Let_def split: http_outcome.splits response_body.splits)

lemma create_recurring_payment_accepts:
  "gw (payment_request cfg od) = Responded 200 (JsonObject body) \<Longrightarrow>
   create_recurring_payment cfg gw od w = (Inr body, w)"
  by (simp add: create_recurring_payment_def)

lemma create_recurring_payment_raises:
  "\<forall>body. gw (payment_request cfg od) \<noteq> Responded 200 (JsonObject body) \<Longrightarrow>
   \<exists>e. fst (create_recurring_payment cfg gw od w) = Inl e"
  by (auto simp add: create_recurring_payment_def Let_def split: http_outcome.splits response_body.splits)

lemma renewal_accepted:
  assumes "gw (payment_request cfg (renewal_order_data r (order_seq w))) = Responded 200 (JsonObject body)"
  shows "fst (process_subscription_renewal cfg gw clk r w) = Inr ()"
    and "subscriptions (snd (process_subscription_renewal cfg gw clk r w)) =
         subscriptions (update_subscription_period (db_now clk) (s_id (sub r))
            (py_now clk + interval_length (interval r)) w)"
    and "payment_logs (snd (process_subscription_renewal cfg gw clk r w)) =
         payment_logs (snd (log_payment_event (db_now clk) (renewal_success_event r (order_seq w) body) w))"
    and "subscription_tiers (snd (process_subscription_renewal cfg gw clk r w)) = subscription_tiers w"
    and "profiles (snd (process_subscription_renewal cfg gw clk r w)) = profiles w"
  using assms
  by (simp_all add: process_subscription_renewal_def Let_def split_beta
        create_recurring_payment_accepts log_payment_event_def renewal_success_event_def
        update_subscription_period_def)

lemma renewal_rejected:
  assumes "\<forall>body. gw (payment_request cfg (renewal_order_data r (order_seq w))) \<noteq> Responded 200 (JsonObject body)"
  shows "\<exists>e. fst (process_subscription_renewal cfg gw clk r w) = Inl e"
    and "subscriptions (snd (process_subscription_renewal cfg gw clk r w)) = subscriptions w"
    and "payment_logs (snd (process_subscription_renewal cfg gw clk r w)) = payment_logs w"
    and "subscription_tiers (snd (process_subscription_renewal cfg gw clk r w)) = subscription_tiers w"
    and "profiles (snd (process_subscription_renewal cfg gw clk r w)) = profiles w"
proof -
  let ?w3 = "logger (InfoCreatedOrder (order_seq w))
               (snd (create_renewal_order (db_now clk) r (price r) (logger (InfoProcessingRenewal (s_id (sub r))) w)))"
  obtain e where e: "fst (create_recurring_payment cfg gw (renewal_order_data r (order_seq w)) ?w3) = Inl e"
    using create_recurring_payment_raises [of gw cfg "renewal_order_data r (order_seq w)" ?w3] assms
    by blast
  show "\<exists>e. fst (process_subscription_renewal cfg gw clk r w) = Inl e"
    using e by (simp add: process_subscription_renewal_def Let_def split_beta)
  show "subscriptions (snd (process_subscription_renewal cfg gw clk r w)) = subscriptions w"
    using e by (simp add: process_subscription_renewal_def Let_def split_beta)
  show "payment_logs (snd (process_subscription_renewal cfg gw clk r w)) = payment_logs w"
    using e by (simp add: process_subscription_renewal_def Let_def split_beta)
  show "subscription_tiers (snd (process_subscription_renewal cfg gw clk r w)) = subscription_tiers w"
    using e by (simp add: process_subscription_renewal_def Let_def split_beta)
  show "profiles (snd (process_subscription_renewal cfg gw clk r w)) = profiles w"
    using e by (simp add: process_subscription_renewal_def Let_def split_beta)
qed


section \<open>Properties\<close>

text \<open>
  C9. On a successful renewal the period-advancing write sets \<open>current_period_start\<close> to
  the time of the write and \<open>current_period_end\<close> to the time read by the process plus 30
  days when the interval is MONTHLY, plus 365 days when it is YEARLY, and plus 30 days
  for every other interval value. The write reaches every row with the subscription's
  identifier and no other row.
\<close>

theorem renewal_period_by_interval:
  assumes "gw (payment_request cfg (renewal_order_data r (order_seq w))) = Responded 200 (JsonObject body)"
  shows "fst (process_subscription_renewal cfg gw clk r w) = Inr () \<and>
         subscriptions (snd (process_subscription_renewal cfg gw clk r w)) =
           map (\<lambda>s. if s_id s = s_id (sub r)
                    then s\<lparr> current_period_start := Some (db_now clk),
                            current_period_end := Some (py_now clk +
                              (if interval r = ''MONTHLY'' then timedelta_days 30
                               else if interval r = ''YEARLY'' then timedelta_days 365
                               else timedelta_days 30)),
                            s_updated_at := Some (db_now clk) \<rparr>
                    else s) (subscriptions w)"
  using assms renewal_accepted(1,2) [where gw = gw and cfg = cfg and r = r and w = w and body = body and clk = clk]
  by (simp add: update_subscription_period_def interval_length_def)

theorem renewal_period_by_interval_witness:
  "gw_accept (payment_request cfg0 (renewal_order_data (row_of sub_1) (order_seq world0))) =
     Responded 200 (JsonObject [(''success'', JBool True), (''netopia_order_id'', JStr ''G-1''),
                                (''status'', JStr ''PROCESSING'')]) \<and>
   subscriptions (snd (process_subscription_renewal cfg0 gw_accept clock0 (row_of sub_1) world0)) =
     [sub_1\<lparr> current_period_start := Some t0,
             current_period_end := Some (t0 + 250000 + timedelta_days 30),
             s_updated_at := Some t0 \<rparr>, sub_2, sub_3]"
proof -
  have h: "gw_accept (payment_request cfg0 (renewal_order_data (row_of sub_1) (order_seq world0))) =
     Responded 200 (JsonObject [(''success'', JBool True), (''netopia_order_id'', JStr ''G-1''),
                                (''status'', JStr ''PROCESSING'')])"
    by (simp add: gw_accept_def)
  show ?thesis
    using h renewal_period_by_interval [where gw = gw_accept and cfg = cfg0 and r = "row_of sub_1"
        and w = world0 and clk = clock0]
    by (simp add: world0_def row_of_def sub_1_def sub_2_def sub_3_def clock0_def)
qed

lemma joined_subscriptions_iff:
  "r \<in> set (joined_subscriptions w) \<longleftrightarrow>
     sub r \<in> set (subscriptions w) \<and>
     (\<exists>st \<in> set (subscription_tiers w). s_tier_id (sub r) = st_id st \<and> price r = st_price st \<and>
        currency r = st_currency st \<and> interval r = st_interval st \<and> tier_name r = st_name st)"
  by (cases r) (auto simp: joined_subscriptions_def join_tier_def)

lemma get_trial_subscriptions_iff:
  "r \<in> set (get_trial_subscriptions w now) \<longleftrightarrow>
     r \<in> set (joined_subscriptions w) \<and> is_expired_trial now (sub r)"
  by (auto simp: get_trial_subscriptions_def)

lemma get_due_subscriptions_iff:
  "r \<in> set (get_due_subscriptions w now) \<longleftrightarrow>
     r \<in> set (joined_subscriptions w) \<and> is_due now (sub r)"
  by (auto simp: get_due_subscriptions_def)

lemma cancel_subscription_returns [simp]:
  "fst (cancel_subscription now sid reason w) = Inr ()"
  by (simp add: cancel_subscription_def Let_def log_payment_event_def)

lemma trial_charged:
  assumes "has_token r"
    and "gw (payment_request cfg (renewal_order_data r (order_seq w))) = Responded 200 (JsonObject body)"
  shows "fst (process_trial_expiration cfg gw clk r w) = Inr ()"
    and "subscriptions (snd (process_trial_expiration cfg gw clk r w)) =
         subscriptions (update_subscription_period (db_now clk) (s_id (sub r))
            (py_now clk + interval_length (interval r)) w)"
    and "subscription_tiers (snd (process_trial_expiration cfg gw clk r w)) = subscription_tiers w"
proof -
  let ?w1 = "logger (InfoProcessingTrialExpiration (s_id (sub r))) w"
  have g: "gw (payment_request cfg (renewal_order_data r (order_seq ?w1))) = Responded 200 (JsonObject body)"
    using assms(2) by simp
  note acc = renewal_accepted [where gw = gw and cfg = cfg and r = r and w = ?w1 and body = body and clk = clk, OF g]
  obtain res w2 where p: "process_subscription_renewal cfg gw clk r ?w1 = (res, w2)"
    by (cases "process_subscription_renewal cfg gw clk r ?w1")
  have res: "res = Inr ()" using acc(1) p by simp
  show "fst (process_trial_expiration cfg gw clk r w) = Inr ()"
    using assms(1) p res by (simp add: process_trial_expiration_def Let_def)
  show "subscriptions (snd (process_trial_expiration cfg gw clk r w)) =
         subscriptions (update_subscription_period (db_now clk) (s_id (sub r))
            (py_now clk + interval_length (interval r)) w)"
    using assms(1) p res acc(2) by (simp add: process_trial_expiration_def Let_def update_subscription_period_def)
  show "subscription_tiers (snd (process_trial_expiration cfg gw clk r w)) = subscription_tiers w"
    using assms(1) p res acc(4) by (simp add: process_trial_expiration_def Let_def)
qed

text \<open>
  C10. The period-advancing write changes \<open>current_period_start\<close>, \<open>current_period_end\<close>
  and \<open>updated_at\<close> of a subscription and nothing else: every row after the write, with
  these three columns put back, is the row before it; status, auto-renew flag, trial end
  and token are in particular the same. So a trial that was selected by the trial-expiry
  query, carries a token and is charged successfully is still TRIALING with the same
  trial end afterwards, and the trial-expiry query selects it again at any later time.
\<close>

theorem period_write_frame:
  assumes "r \<in> set (get_trial_subscriptions w now)"
    and "has_token r"
    and "gw (payment_request cfg (renewal_order_data r (order_seq w))) = Responded 200 (JsonObject body)"
    and "now \<le> now'"
  shows "list_all2 (\<lambda>s s'. s'\<lparr> current_period_start := current_period_start s,
                              current_period_end := current_period_end s,
                              s_updated_at := s_updated_at s \<rparr> = s)
           (subscriptions w0) (subscriptions (update_subscription_period t sid e w0)) \<and>
         map s_status (subscriptions (update_subscription_period t sid e w0)) = map s_status (subscriptions w0) \<and>
         map auto_renew (subscriptions (update_subscription_period t sid e w0)) = map auto_renew (subscriptions w0) \<and>
         map trial_end (subscriptions (update_subscription_period t sid e w0)) = map trial_end (subscriptions w0) \<and>
         map netopia_token (subscriptions (update_subscription_period t sid e w0)) = map netopia_token (subscriptions w0) \<and>
         (\<exists>r' \<in> set (get_trial_subscriptions (snd (process_trial_expiration cfg gw clk r w)) now').
            s_id (sub r') = s_id (sub r) \<and> s_status (sub r') = ''TRIALING'' \<and>
            trial_end (sub r') = trial_end (sub r))"
proof -
  let ?u = "update_subscription_period t sid e w0"
  have frame: "list_all2 (\<lambda>s s'. s'\<lparr> current_period_start := current_period_start s,
                              current_period_end := current_period_end s,
                              s_updated_at := s_updated_at s \<rparr> = s)
           (subscriptions w0) (subscriptions ?u)"
    by (simp add: update_subscription_period_def list_all2_map2 list_all2_same)
  have m1: "map s_status (subscriptions ?u) = map s_status (subscriptions w0)"
    and m2: "map auto_renew (subscriptions ?u) = map auto_renew (subscriptions w0)"
    and m3: "map trial_end (subscriptions ?u) = map trial_end (subscriptions w0)"
    and m4: "map netopia_token (subscriptions ?u) = map netopia_token (subscriptions w0)"
    by (simp_all add: update_subscription_period_def)
  let ?w' = "snd (process_trial_expiration cfg gw clk r w)"
  let ?s' = "(sub r)\<lparr> current_period_start := Some (db_now clk),
                       current_period_end := Some (py_now clk + interval_length (interval r)),
                       s_updated_at := Some (db_now clk) \<rparr>"
  let ?r' = "r\<lparr> sub := ?s' \<rparr>"
  from assms(1) have j: "r \<in> set (joined_subscriptions w)" and x: "is_expired_trial now (sub r)"
    by (simp_all add: get_trial_subscriptions_iff)
  from j have "sub r \<in> set (subscriptions w)"
    by (simp add: joined_subscriptions_iff)
  then have "?s' \<in> set (subscriptions ?w')"
    using trial_charged(2) [where gw = gw and cfg = cfg and r = r and w = w and body = body and clk = clk, OF assms(2,3)]
    by (force simp: update_subscription_period_def)
  moreover have "subscription_tiers ?w' = subscription_tiers w"
    using trial_charged(3) [where gw = gw and cfg = cfg and r = r and w = w and body = body and clk = clk, OF assms(2,3)] .
  ultimately have "?r' \<in> set (joined_subscriptions ?w')"
    using j by (simp add: joined_subscriptions_iff)
  moreover have "is_expired_trial now' (sub ?r')"
    using x assms(4) by (auto simp: is_expired_trial_def at_or_before_def split: option.splits)
  ultimately have "?r' \<in> set (get_trial_subscriptions ?w' now')"
    by (simp add: get_trial_subscriptions_iff)
  moreover have "s_id (sub ?r') = s_id (sub r) \<and> s_status (sub ?r') = ''TRIALING'' \<and>
            trial_end (sub ?r') = trial_end (sub r)"
    using x by (simp add: is_expired_trial_def)
  ultimately have trial: "\<exists>r' \<in> set (get_trial_subscriptions ?w' now').
            s_id (sub r') = s_id (sub r) \<and> s_status (sub r') = ''TRIALING'' \<and>
            trial_end (sub r') = trial_end (sub r)"
    by blast
  from frame m1 m2 m3 m4 trial show ?thesis by blast
qed


lemmas scenario_defs = world0_def sub_1_def sub_2_def sub_3_def tier_pro_def row_of_def clock0_def
  cfg0_def order_7_def event_1_def profile_of_def world1_def order_9_def event_2_def
  failed_row_1_def failed_row_2_def

theorem period_write_frame_witness:
  "row_of sub_3 \<in> set (get_trial_subscriptions world0 t0) \<and> has_token (row_of sub_3) \<and>
   (\<exists>r' \<in> set (get_trial_subscriptions
                 (snd (process_trial_expiration cfg0 gw_accept clock0 (row_of sub_3) world0))
                 (t0 + interval_hours 1)).
      s_id (sub r') = ''sub_3'' \<and> s_status (sub r') = ''TRIALING'' \<and>
      trial_end (sub r') = Some (t0 - interval_hours 1))"
proof -
  have h1: "row_of sub_3 \<in> set (get_trial_subscriptions world0 t0)"
    by (simp add: get_trial_subscriptions_iff joined_subscriptions_iff is_expired_trial_def
          at_or_before_def interval_hours_def scenario_defs)
  have h2: "has_token (row_of sub_3)"
    by (simp add: has_token_def scenario_defs)
  have h3: "gw_accept (payment_request cfg0 (renewal_order_data (row_of sub_3) (order_seq world0))) =
     Responded 200 (JsonObject [(''success'', JBool True), (''netopia_order_id'', JStr ''G-1''),
                                (''status'', JStr ''PROCESSING'')])"
    by (simp add: gw_accept_def)
  have h4: "t0 \<le> t0 + interval_hours 1"
    by (simp add: interval_hours_def)
  have "\<exists>r' \<in> set (get_trial_subscriptions
                 (snd (process_trial_expiration cfg0 gw_accept clock0 (row_of sub_3) world0))
                 (t0 + interval_hours 1)).
      s_id (sub r') = s_id (sub (row_of sub_3)) \<and> s_status (sub r') = ''TRIALING'' \<and>
      trial_end (sub r') = trial_end (sub (row_of sub_3))"
    using period_write_frame [where gw = gw_accept and cfg = cfg0 and r = "row_of sub_3"
        and w = world0 and clk = clock0 and now = t0 and now' = "t0 + interval_hours 1", OF h1 h2 h3 h4]
    by blast
  then show ?thesis
    using h1 h2 by (simp add: row_of_def sub_3_def)
qed

lemma find_map_update:
  assumes "\<And>s. s_id (f s) = s_id s"
  shows "find (\<lambda>s. s_id s = sid) (map (\<lambda>s. if s_id s = sid then f s else s) xs) =
         map_option f (find (\<lambda>s. s_id s = sid) xs)"
  using assms by (induction xs) auto

lemma subscription_user_unchanged:
  assumes "\<And>s. s_id (f s) = s_id s" and "\<And>s. s_user_id (f s) = s_user_id s"
  shows "map_option s_user_id
           (find (\<lambda>s. s_id s = sid) (map (\<lambda>s. if s_id s = sid then f s else s) xs)) =
         map_option s_user_id (find (\<lambda>s. s_id s = sid) xs)"
  using assms by (induction xs) auto

lemma cancel_subscription_effect:
  "subscriptions (snd (cancel_subscription now sid reason w)) =
     map (\<lambda>s. if s_id s = sid
              then s\<lparr> s_status := ''CANCELED'', cancel_effective_at := Some now,
                      s_updated_at := Some now \<rparr>
              else s) (subscriptions w)"
  "profiles (snd (cancel_subscription now sid reason w)) =
     map (\<lambda>p. if Some (p_id p) = subscription_user w sid
              then p\<lparr> subscription_tier := ''free'', p_updated_at := Some now \<rparr>
              else p) (profiles w)"
  "payment_logs (snd (cancel_subscription now sid reason w)) =
     payment_logs w @
       [\<lparr> order_id = None, subscription_id = Some sid,
          event_type = Some ''SUBSCRIPTION_CANCELED'', netopia_order_id = None,
          amount = None, currency_of = None, status = Some ''CANCELED'',
          raw_payload = PyDict [(''reason'', PyStr reason), (''auto_cancel'', PyBool True)],
          retry_count = 0, error_message = None, processing_time_ms = None,
          created_at = now \<rparr>]"
  "subscription_tiers (snd (cancel_subscription now sid reason w)) = subscription_tiers w"
  "log (snd (cancel_subscription now sid reason w)) = log w"
     apply (simp_all add: cancel_subscription_def Let_def log_payment_event_def empty_event_def)
  apply (simp add: subscription_user_def subscription_user_unchanged)
  done

text \<open>
  C7. A trial whose stored token is absent is cancelled at once by the trial-expiry
  operation: the call returns normally, the stored subscription becomes CANCELED (with
  the cancellation time set), one event of type SUBSCRIPTION_CANCELED and status CANCELED
  is appended whose payload carries the reason \<open>Trial expired - no payment method\<close>, which
  contains \<open>no payment method\<close>, and every profile of the subscription's user shows the
  tier \<open>free\<close>. The subscription handed over is the stored row with its identifier.
\<close>

theorem trial_without_token_cancelled:
  assumes "netopia_token (sub r) = None"
    and "find (\<lambda>s. s_id s = s_id (sub r)) (subscriptions w) = Some (sub r)"
  shows "fst (process_trial_expiration cfg gw clk r w) = Inr () \<and>
         find (\<lambda>s. s_id s = s_id (sub r))
              (subscriptions (snd (process_trial_expiration cfg gw clk r w))) =
           Some ((sub r)\<lparr> s_status := ''CANCELED'', cancel_effective_at := Some (db_now clk),
                          s_updated_at := Some (db_now clk) \<rparr>) \<and>
         (\<forall>s \<in> set (subscriptions (snd (process_trial_expiration cfg gw clk r w))).
            s_id s = s_id (sub r) \<longrightarrow> s_status s = ''CANCELED'') \<and>
         payment_logs (snd (process_trial_expiration cfg gw clk r w)) =
           payment_logs w @
             [\<lparr> order_id = None, subscription_id = Some (s_id (sub r)),
                event_type = Some ''SUBSCRIPTION_CANCELED'', netopia_order_id = None,
                amount = None, currency_of = None, status = Some ''CANCELED'',
                raw_payload = PyDict [(''reason'', PyStr ''Trial expired - no payment method''),
                                      (''auto_cancel'', PyBool True)],
                retry_count = 0, error_message = None, processing_time_ms = None,
                created_at = db_now clk \<rparr>] \<and>
         sublist ''no payment method'' ''Trial expired - no payment method'' \<and>
         map p_id (profiles (snd (process_trial_expiration cfg gw clk r w))) = map p_id (profiles w) \<and>
         (\<forall>p \<in> set (profiles (snd (process_trial_expiration cfg gw clk r w))).
            p_id p = s_user_id (sub r) \<longrightarrow> subscription_tier p = ''free'')"
proof -
  let ?sid = "s_id (sub r)"
  let ?w1 = "logger (InfoProcessingTrialExpiration ?sid) w"
  let ?c = "cancel_subscription (db_now clk) ?sid ''Trial expired - no payment method'' ?w1"
  have nt: "\<not> has_token r"
    using assms(1) by (simp add: has_token_def)
  have c: "?c = (Inr (), snd ?c)"
    by (metis cancel_subscription_returns prod.collapse)
  have res: "process_trial_expiration cfg gw clk r w = (Inr (), logger (InfoCancelledNoPayment ?sid) (snd ?c))"
    using nt by (simp add: process_trial_expiration_def Let_def split_beta)
  have u: "subscription_user ?w1 ?sid = Some (s_user_id (sub r))"
    using assms(2) by (simp add: subscription_user_def)
  have 1: "fst (process_trial_expiration cfg gw clk r w) = Inr ()"
    by (simp add: res)
  have 2: "find (\<lambda>s. s_id s = ?sid) (subscriptions (snd (process_trial_expiration cfg gw clk r w))) =
           Some ((sub r)\<lparr> s_status := ''CANCELED'', cancel_effective_at := Some (db_now clk),
                          s_updated_at := Some (db_now clk) \<rparr>)"
    using assms(2) by (simp add: res cancel_subscription_effect find_map_update)
  have 3: "\<forall>s \<in> set (subscriptions (snd (process_trial_expiration cfg gw clk r w))).
            s_id s = ?sid \<longrightarrow> s_status s = ''CANCELED''"
    by (auto simp: res cancel_subscription_effect)
  have 4: "payment_logs (snd (process_trial_expiration cfg gw clk r w)) =
           payment_logs w @
             [\<lparr> order_id = None, subscription_id = Some ?sid,
                event_type = Some ''SUBSCRIPTION_CANCELED'', netopia_order_id = None,
                amount = None, currency_of = None, status = Some ''CANCELED'',
                raw_payload = PyDict [(''reason'', PyStr ''Trial expired - no payment method''),
                                      (''auto_cancel'', PyBool True)],
                retry_count = 0, error_message = None, processing_time_ms = None,
                created_at = db_now clk \<rparr>]"
    by (simp add: res cancel_subscription_effect)
  have "suffix ''no payment method'' ''Trial expired - no payment method''"
    by (simp add: suffix_def)
  then have 5: "sublist ''no payment method'' ''Trial expired - no payment method''"
    by (rule suffix_imp_sublist)
  have 6: "map p_id (profiles (snd (process_trial_expiration cfg gw clk r w))) = map p_id (profiles w)"
    by (simp add: res cancel_subscription_effect comp_def if_distrib cong: if_cong)
  have 7: "\<forall>p \<in> set (profiles (snd (process_trial_expiration cfg gw clk r w))).
            p_id p = s_user_id (sub r) \<longrightarrow> subscription_tier p = ''free''"
    using u by (auto simp: res cancel_subscription_effect)
  from 1 2 3 4 5 6 7 show ?thesis by blast
qed

theorem trial_without_token_cancelled_witness:
  "netopia_token (sub (row_of sub_2)) = None \<and>
   find (\<lambda>s. s_id s = ''sub_2'') (subscriptions world0) = Some sub_2 \<and>
   find (\<lambda>s. s_id s = ''sub_2'')
     (subscriptions (snd (process_trial_expiration cfg0 gw_accept clock0 (row_of sub_2) world0))) =
     Some (sub_2\<lparr> s_status := ''CANCELED'', cancel_effective_at := Some t0, s_updated_at := Some t0 \<rparr>) \<and>
   profiles (snd (process_trial_expiration cfg0 gw_accept clock0 (row_of sub_2) world0)) =
     [profile_of ''user_1'',
      \<lparr> p_id = ''user_2'', subscription_tier = ''free'', p_updated_at = Some t0 \<rparr>,
      profile_of ''user_3'']"
proof -
  have h1: "netopia_token (sub (row_of sub_2)) = None"
    by (simp add: scenario_defs)
  have h2: "find (\<lambda>s. s_id s = s_id (sub (row_of sub_2))) (subscriptions world0) = Some (sub (row_of sub_2))"
    by (simp add: scenario_defs)
  have p: "profiles (snd (process_trial_expiration cfg0 gw_accept clock0 (row_of sub_2) world0)) =
     [profile_of ''user_1'',
      \<lparr> p_id = ''user_2'', subscription_tier = ''free'', p_updated_at = Some t0 \<rparr>,
      profile_of ''user_3'']"
    by (simp add: process_trial_expiration_def has_token_def Let_def split_beta
          cancel_subscription_effect subscription_user_def scenario_defs)
  show ?thesis
    using h1 h2 p trial_without_token_cancelled [where r = "row_of sub_2" and w = world0
        and cfg = cfg0 and gw = gw_accept and clk = clock0, OF h1 h2]
    by (simp add: row_of_def sub_2_def clock0_def)
qed

lemma create_recurring_payment_result:
  "fst (create_recurring_payment cfg gw od w) = fst (create_recurring_payment cfg gw od w')"
  by (simp add: create_recurring_payment_def Let_def split: http_outcome.splits response_body.splits)

lemma renewal_by_client_result:
  "fst (create_recurring_payment cfg gw (renewal_order_data r (order_seq w)) w0) = Inl e \<Longrightarrow>
     fst (process_subscription_renewal cfg gw clk r w) = Inl e \<and>
     subscriptions (snd (process_subscription_renewal cfg gw clk r w)) = subscriptions w \<and>
     payment_logs (snd (process_subscription_renewal cfg gw clk r w)) = payment_logs w"
  "fst (create_recurring_payment cfg gw (renewal_order_data r (order_seq w)) w0) = Inr body \<Longrightarrow>
     fst (process_subscription_renewal cfg gw clk r w) = Inr () \<and>
     subscriptions (snd (process_subscription_renewal cfg gw clk r w)) =
       subscriptions (update_subscription_period (db_now clk) (s_id (sub r))
          (py_now clk + interval_length (interval r)) w) \<and>
     payment_logs (snd (process_subscription_renewal cfg gw clk r w)) =
       payment_logs (snd (log_payment_event (db_now clk) (renewal_success_event r (order_seq w) body) w))"
proof -
  let ?w3 = "logger (InfoCreatedOrder (order_seq w))
               (snd (create_renewal_order (db_now clk) r (price r) (logger (InfoProcessingRenewal (s_id (sub r))) w)))"
  have eq: "fst (create_recurring_payment cfg gw (renewal_order_data r (order_seq w)) ?w3) =
            fst (create_recurring_payment cfg gw (renewal_order_data r (order_seq w)) w0)"
    by (rule create_recurring_payment_result)
  { assume "fst (create_recurring_payment cfg gw (renewal_order_data r (order_seq w)) w0) = Inl e"
    with eq have e: "fst (create_recurring_payment cfg gw (renewal_order_data r (order_seq w)) ?w3) = Inl e"
      by simp
    show "fst (process_subscription_renewal cfg gw clk r w) = Inl e \<and>
     subscriptions (snd (process_subscription_renewal cfg gw clk r w)) = subscriptions w \<and>
     payment_logs (snd (process_subscription_renewal cfg gw clk r w)) = payment_logs w"
      using e by (simp add: process_subscription_renewal_def Let_def split_beta) }
  { assume "fst (create_recurring_payment cfg gw (renewal_order_data r (order_seq w)) w0) = Inr body"
    with eq have e: "fst (create_recurring_payment cfg gw (renewal_order_data r (order_seq w)) ?w3) = Inr body"
      by simp
    show "fst (process_subscription_renewal cfg gw clk r w) = Inr () \<and>
     subscriptions (snd (process_subscription_renewal cfg gw clk r w)) =
       subscriptions (update_subscription_period (db_now clk) (s_id (sub r))
          (py_now clk + interval_length (interval r)) w) \<and>
     payment_logs (snd (process_subscription_renewal cfg gw clk r w)) =
       payment_logs (snd (log_payment_event (db_now clk) (renewal_success_event r (order_seq w) body) w))"
      using e by (simp add: process_subscription_renewal_def Let_def split_beta
          log_payment_event_def renewal_success_event_def update_subscription_period_def) }
qed



text \<open>
  C1, the code on a trial with a token whose charge the gateway accepts (subscription
  \<open>sub_3\<close>, trial ended an hour ago): the trial-expiry operation returns normally, the
  period of the stored subscription is advanced, and its status is still TRIALING, neither
  ACTIVE nor CANCELED.
\<close>

theorem charged_trial_left_trialing:
  "fst (process_trial_expiration cfg0 gw_accept clock0 (row_of sub_3) world0) = Inr () \<and>
   find (\<lambda>s. s_id s = ''sub_3'')
     (subscriptions (snd (process_trial_expiration cfg0 gw_accept clock0 (row_of sub_3) world0))) =
     Some (sub_3\<lparr> current_period_start := Some t0,
                  current_period_end := Some (t0 + 250000 + timedelta_days 30),
                  s_updated_at := Some t0 \<rparr>) \<and>
   s_status (sub_3\<lparr> current_period_start := Some t0,
                    current_period_end := Some (t0 + 250000 + timedelta_days 30),
                    s_updated_at := Some t0 \<rparr>) = ''TRIALING''"
proof -
  have h2: "has_token (row_of sub_3)"
    by (simp add: has_token_def scenario_defs)
  have h3: "gw_accept (payment_request cfg0 (renewal_order_data (row_of sub_3) (order_seq world0))) =
     Responded 200 (JsonObject [(''success'', JBool True), (''netopia_order_id'', JStr ''G-1''),
                                (''status'', JStr ''PROCESSING'')])"
    by (simp add: gw_accept_def)
  show ?thesis
    using trial_charged(1,2) [where gw = gw_accept and cfg = cfg0 and r = "row_of sub_3"
        and w = world0 and clk = clock0, OF h2 h3]
    by (simp add: update_subscription_period_def interval_length_def scenario_defs)
qed


lemma failed_renewal_payload_not_serialisable:
  "current_period_end (sub r) = Some t \<Longrightarrow>
   \<not> json_serialisable (raw_payload (renewal_failed_event r e))"
  by (simp add: renewal_failed_event_def sub_row_dict_def py_dict_def subscription_items_def
        py_opt_def)

lemma renew_item_after_failure:
  assumes "fst (create_recurring_payment cfg gw (renewal_order_data r (order_seq w)) w) = Inl e"
    and "current_period_end (sub r) = Some t"
  shows "fst (renew_item cfg gw clk r w) =
           Inl (PyExc TypeError ''Object of type datetime is not JSON serializable'')"
    and "payment_logs (snd (renew_item cfg gw clk r w)) = payment_logs w"
    and "subscriptions (snd (renew_item cfg gw clk r w)) = subscriptions w"
proof -
  obtain w1 where p: "process_subscription_renewal cfg gw clk r w = (Inl e, w1)"
    and w1: "payment_logs w1 = payment_logs w" "subscriptions w1 = subscriptions w"
    using renewal_by_client_result(1) [where cfg = cfg and gw = gw and r = r and w = w
        and ?w0.0 = w and clk = clk and e = e, OF assms(1)]
    by (cases "process_subscription_renewal cfg gw clk r w") auto
  note ns = failed_renewal_payload_not_serialisable [OF assms(2), of e]
  show "fst (renew_item cfg gw clk r w) =
           Inl (PyExc TypeError ''Object of type datetime is not JSON serializable'')"
    using p ns by (simp add: renew_item_def log_payment_event_def)
  show "payment_logs (snd (renew_item cfg gw clk r w)) = payment_logs w"
    using p ns w1 by (simp add: renew_item_def log_payment_event_def)
  show "subscriptions (snd (renew_item cfg gw clk r w)) = subscriptions w"
    using p ns w1 by (simp add: renew_item_def log_payment_event_def)
qed

text \<open>
  C3, the code on a due subscription whose charge the gateway declines (subscription
  \<open>sub_1\<close>, selected by the renewal query, answer 402 with a message): the gateway client
  raises the provider's message, and the handler that is to append the FAILED event
  raises TypeError instead, because the payload of that event holds the subscription's
  row with its \<^verbatim>\<open>datetime\<close> columns. The payment events after the turn are the events
  before it: no FAILED event has been appended. The period is unchanged.
\<close>

theorem declined_renewal_appends_no_event:
  "row_of sub_1 \<in> set (get_due_subscriptions world0 t0) \<and>
   fst (create_recurring_payment cfg0 gw_decline
          (renewal_order_data (row_of sub_1) (order_seq world0)) world0) =
     Inl (PyExc GenericException ''Netopia API error: Card declined'') \<and>
   fst (renew_item cfg0 gw_decline clock0 (row_of sub_1) world0) =
     Inl (PyExc TypeError ''Object of type datetime is not JSON serializable'') \<and>
   payment_logs (snd (renew_item cfg0 gw_decline clock0 (row_of sub_1) world0)) = [event_1] \<and>
   subscriptions (snd (renew_item cfg0 gw_decline clock0 (row_of sub_1) world0)) =
     [sub_1, sub_2, sub_3]"
proof -
  have h1: "row_of sub_1 \<in> set (get_due_subscriptions world0 t0)"
    by (simp add: get_due_subscriptions_iff joined_subscriptions_iff is_due_def
          at_or_before_def timedelta_days_def scenario_defs)
  have d: "fst (create_recurring_payment cfg0 gw_decline
          (renewal_order_data (row_of sub_1) (order_seq world0)) world0) =
     Inl (PyExc GenericException ''Netopia API error: Card declined'')"
    by (simp add: create_recurring_payment_def gw_decline_def Let_def)
  have c: "current_period_end (sub (row_of sub_1)) = Some (t0 - timedelta_days 1)"
    by (simp add: scenario_defs)
  show ?thesis
    using h1 d renew_item_after_failure [OF d c, of clock0]
    by (simp add: world0_def)
qed

lemma tier_match_at_most_one:
  "distinct (map st_id tiers) \<Longrightarrow> length (filter (\<lambda>st. k = st_id st) tiers) \<le> 1"
proof (induction tiers)
  case Nil
  then show ?case by simp
next
  case (Cons a tiers)
  then have "k = st_id a \<Longrightarrow> filter (\<lambda>st. k = st_id st) tiers = []"
    by (auto simp: filter_empty_conv)
  with Cons show ?case by auto
qed

lemma join_tier_ids:
  assumes "distinct (map st_id tiers)"
  shows "map (\<lambda>r. s_id (sub r)) (join_tier tiers s) = [] \<or>
         map (\<lambda>r. s_id (sub r)) (join_tier tiers s) = [s_id s]"
proof -
  have "length (filter (\<lambda>st. s_tier_id s = st_id st) tiers) \<le> 1"
    using assms by (rule tier_match_at_most_one)
  then show ?thesis
    by (cases "filter (\<lambda>st. s_tier_id s = st_id st) tiers") (auto simp: join_tier_def)
qed

lemma joined_ids_subset:
  "set (map (\<lambda>r. s_id (sub r)) (concat (map (join_tier tiers) subs))) \<subseteq> set (map s_id subs)"
  by (auto simp: join_tier_def)

lemma joined_ids_distinct:
  assumes "distinct (map st_id tiers)"
  shows "distinct (map s_id subs) \<Longrightarrow>
         distinct (map (\<lambda>r. s_id (sub r)) (concat (map (join_tier tiers) subs)))"
proof (induction subs)
  case Nil
  then show ?case by simp
next
  case (Cons s subs)
  have rest: "distinct (map (\<lambda>r. s_id (sub r)) (concat (map (join_tier tiers) subs)))"
    using Cons by simp
  have fresh: "s_id s \<notin> set (map (\<lambda>r. s_id (sub r)) (concat (map (join_tier tiers) subs)))"
    using Cons.prems joined_ids_subset [of tiers subs] by auto
  from join_tier_ids [OF assms, of s] show ?case
  proof
    assume "map (\<lambda>r. s_id (sub r)) (join_tier tiers s) = []"
    with rest show ?thesis by simp
  next
    assume "map (\<lambda>r. s_id (sub r)) (join_tier tiers s) = [s_id s]"
    with rest fresh show ?thesis by simp
  qed
qed

lemma distinct_map_sort_key:
  "distinct (map g (sort_key f xs)) = distinct (map g xs)"
  by (simp add: distinct_map)

lemma due_sorted:
  "sorted_wrt (\<lambda>a b. \<exists>t u. current_period_end (sub a) = Some t \<and>
                           current_period_end (sub b) = Some u \<and> t \<le> u)
     (get_due_subscriptions w now)"
proof -
  let ?k = "\<lambda>r. nulls_last (current_period_end (sub r))"
  have "sorted (map ?k (get_due_subscriptions w now))"
    by (simp add: get_due_subscriptions_def)
  then have "sorted_wrt (\<lambda>a b. ?k a \<le> ?k b) (get_due_subscriptions w now)"
    by (simp add: sorted_map)
  then show ?thesis
  proof (rule sorted_wrt_mono_rel [rotated])
    fix a b
    assume "a \<in> set (get_due_subscriptions w now)" "b \<in> set (get_due_subscriptions w now)"
      and le: "?k a \<le> ?k b"
    then obtain t u where "current_period_end (sub a) = Some t" "current_period_end (sub b) = Some u"
      by (auto simp: get_due_subscriptions_iff is_due_def at_or_before_def split: option.splits)
    with le show "\<exists>t u. current_period_end (sub a) = Some t \<and>
                           current_period_end (sub b) = Some u \<and> t \<le> u"
      by (simp add: nulls_last_def)
  qed
qed

text \<open>
  C8. Where subscription and tier identifiers are unique and every subscription refers to
  a tier, the renewal query returns exactly the subscriptions that are ACTIVE, renew
  automatically, have a period end at or before now and a token that is not NULL; the
  rows come ordered by period end, oldest first; no subscription occurs twice; no row is
  CANCELED or TRIALING or lacks a token.
\<close>

theorem due_for_renewal_query:
  assumes "distinct (map s_id (subscriptions w))"
    and "distinct (map st_id (subscription_tiers w))"
    and "\<forall>s \<in> set (subscriptions w). \<exists>st \<in> set (subscription_tiers w). st_id st = s_tier_id s"
  shows "set (map sub (get_due_subscriptions w now)) =
           {s \<in> set (subscriptions w).
              s_status s = ''ACTIVE'' \<and> auto_renew s \<and>
              (\<exists>t. current_period_end s = Some t \<and> t \<le> now) \<and> netopia_token s \<noteq> None} \<and>
         sorted_wrt (\<lambda>a b. \<exists>t u. current_period_end (sub a) = Some t \<and>
                               current_period_end (sub b) = Some u \<and> t \<le> u)
           (get_due_subscriptions w now) \<and>
         distinct (map (\<lambda>r. s_id (sub r)) (get_due_subscriptions w now)) \<and>
         (\<forall>r \<in> set (get_due_subscriptions w now).
            s_status (sub r) \<noteq> ''CANCELED'' \<and> s_status (sub r) \<noteq> ''TRIALING'' \<and>
            netopia_token (sub r) \<noteq> None)"
proof -
  have due: "is_due now s \<longleftrightarrow> s_status s = ''ACTIVE'' \<and> auto_renew s \<and>
              (\<exists>t. current_period_end s = Some t \<and> t \<le> now) \<and> netopia_token s \<noteq> None" for s
    by (auto simp: is_due_def at_or_before_def split: option.splits)
  have 1: "set (map sub (get_due_subscriptions w now)) =
           {s \<in> set (subscriptions w).
              s_status s = ''ACTIVE'' \<and> auto_renew s \<and>
              (\<exists>t. current_period_end s = Some t \<and> t \<le> now) \<and> netopia_token s \<noteq> None}"
  proof (intro set_eqI iffI)
    fix s
    assume "s \<in> set (map sub (get_due_subscriptions w now))"
    then obtain r where "r \<in> set (get_due_subscriptions w now)" "s = sub r"
      by auto
    then show "s \<in> {s \<in> set (subscriptions w).
              s_status s = ''ACTIVE'' \<and> auto_renew s \<and>
              (\<exists>t. current_period_end s = Some t \<and> t \<le> now) \<and> netopia_token s \<noteq> None}"
      using due [of s] by (simp add: get_due_subscriptions_iff joined_subscriptions_iff)
  next
    fix s
    assume "s \<in> {s \<in> set (subscriptions w).
              s_status s = ''ACTIVE'' \<and> auto_renew s \<and>
              (\<exists>t. current_period_end s = Some t \<and> t \<le> now) \<and> netopia_token s \<noteq> None}"
    then have s: "s \<in> set (subscriptions w)" and d: "is_due now s"
      using due [of s] by simp_all
    from s assms(3) obtain st where st: "st \<in> set (subscription_tiers w)" "s_tier_id s = st_id st"
      by metis
    let ?r = "\<lparr> sub = s, price = st_price st, currency = st_currency st,
                 interval = st_interval st, tier_name = st_name st \<rparr>"
    have "?r \<in> set (get_due_subscriptions w now)"
      using s d st by (simp add: get_due_subscriptions_iff joined_subscriptions_iff) blast
    then have "sub ?r \<in> set (map sub (get_due_subscriptions w now))"
      by (simp only: set_map) (rule imageI)
    then show "s \<in> set (map sub (get_due_subscriptions w now))"
      by simp
  qed
  have 3: "distinct (map (\<lambda>r. s_id (sub r)) (get_due_subscriptions w now))"
    unfolding get_due_subscriptions_def distinct_map_sort_key joined_subscriptions_def
    by (rule distinct_map_filter) (rule joined_ids_distinct [OF assms(2,1)])
  have 4: "\<forall>r \<in> set (get_due_subscriptions w now).
            s_status (sub r) \<noteq> ''CANCELED'' \<and> s_status (sub r) \<noteq> ''TRIALING'' \<and>
            netopia_token (sub r) \<noteq> None"
    by (auto simp: get_due_subscriptions_iff is_due_def)
  from 1 due_sorted [of w now] 3 4 show ?thesis by blast
qed


theorem due_for_renewal_query_witness:
  "distinct (map s_id (subscriptions world0)) \<and>
   distinct (map st_id (subscription_tiers world0)) \<and>
   set (map sub (get_due_subscriptions world0 t0)) = {sub_1} \<and>
   distinct (map (\<lambda>r. s_id (sub r)) (get_due_subscriptions world0 t0))"
proof -
  have h1: "distinct (map s_id (subscriptions world0))"
    by (simp add: scenario_defs)
  have h2: "distinct (map st_id (subscription_tiers world0))"
    by (simp add: scenario_defs)
  have h3: "\<forall>s \<in> set (subscriptions world0). \<exists>st \<in> set (subscription_tiers world0). st_id st = s_tier_id s"
    by (simp add: scenario_defs)
  have sel: "{s \<in> set (subscriptions world0).
              s_status s = ''ACTIVE'' \<and> auto_renew s \<and>
              (\<exists>t. current_period_end s = Some t \<and> t \<le> t0) \<and> netopia_token s \<noteq> None} = {sub_1}"
    by (auto simp: scenario_defs timedelta_days_def)
  show ?thesis
    using h1 h2 sel due_for_renewal_query [OF h1 h2 h3, of t0]
    by simp
qed




lemma retry_payment_fields [simp]:
  "subscriptions (snd (retry_payment clk p w)) = subscriptions w"
  "subscription_tiers (snd (retry_payment clk p w)) = subscription_tiers w"
  "orders (snd (retry_payment clk p w)) = orders w"
  "order_seq (snd (retry_payment clk p w)) = order_seq w"
  "profiles (snd (retry_payment clk p w)) = profiles w"
  by (simp_all add: retry_payment_def Let_def log_payment_event_def)

text \<open>
  C2, as stated, fails on a failed event with one retry, two hours old, under a maximum
  of three (\<open>event_2\<close>): the retry returns normally, and afterwards the retry query selects
  the same event again with the retry count 1 it had. The orders are untouched; no charge
  has been attempted.
\<close>

theorem retried_event_keeps_its_count:
  "get_failed_payments cfg0 world1 t0 = [failed_row_1, failed_row_2] \<and>
   payment_retry_count failed_row_2 = 1 \<and>
   fst (retry_payment clock0 failed_row_2 world1) = Inr () \<and>
   get_failed_payments cfg0 (snd (retry_payment clock0 failed_row_2 world1)) t0 =
     [failed_row_1, failed_row_2] \<and>
   orders (snd (retry_payment clock0 failed_row_2 world1)) = orders world1"
  by (simp add: get_failed_payments_def joined_payment_logs_def left_join_sub_def is_retryable_def
        retry_payment_def retry_event_def log_payment_event_def Let_def
        failed_row_dict_def py_dict_def payment_log_items_def order_items_def
        null_subscription_items_def py_opt_def payment_order_id_def payment_subscription_id_def
        payment_retry_count_def empty_event_def interval_hours_def logger_def scenario_defs)


text \<open>
  C2, amended. The retry of a failed payment leaves subscriptions, orders and profiles as
  they are and has no access to the gateway; it changes no stored event, so the event
  retried keeps its retry count. When it returns normally it has appended exactly one
  event, of type PAYMENT_RETRY and status RETRYING, whose retry count is the count of the
  event retried plus one; when it raises it has appended nothing.
\<close>

theorem retry_payment_only_logs:
  "subscriptions (snd (retry_payment clk p w)) = subscriptions w \<and>
   orders (snd (retry_payment clk p w)) = orders w \<and>
   profiles (snd (retry_payment clk p w)) = profiles w \<and>
   (if fst (retry_payment clk p w) = Inr ()
    then payment_logs (snd (retry_payment clk p w)) =
           payment_logs w @
             [\<lparr> order_id = payment_order_id p, subscription_id = payment_subscription_id p,
                event_type = Some ''PAYMENT_RETRY'', netopia_order_id = None, amount = None,
                currency_of = None, status = Some ''RETRYING'',
                raw_payload = PyDict [(''original_payment'', failed_row_dict p)],
                retry_count = payment_retry_count p + 1, error_message = None,
                processing_time_ms = None, created_at = db_now clk \<rparr>]
    else payment_logs (snd (retry_payment clk p w)) = payment_logs w)"
  by (simp add: retry_payment_def retry_event_def log_payment_event_def Let_def empty_event_def)

theorem retry_payment_only_logs_witness:
  "fst (retry_payment clock0 failed_row_2 world1) = Inr () \<and>
   map retry_count (payment_logs (snd (retry_payment clock0 failed_row_2 world1))) = [1, 1, 2] \<and>
   map status (payment_logs (snd (retry_payment clock0 failed_row_2 world1))) =
     [Some ''FAILED'', Some ''FAILED'', Some ''RETRYING'']"
proof -
  have r: "fst (retry_payment clock0 failed_row_2 world1) = Inr ()"
    by (simp add: retry_payment_def retry_event_def log_payment_event_def Let_def
        failed_row_dict_def py_dict_def payment_log_items_def order_items_def
        null_subscription_items_def py_opt_def empty_event_def scenario_defs)
  show ?thesis
    using r retry_payment_only_logs [of clock0 failed_row_2 world1]
    by (simp add: payment_retry_count_def scenario_defs)
qed

lemma quiet_refl [simp]: "quiet_step w w"
  by (simp add: quiet_step_def)

lemma quiet_same_log: "log w' = log w \<Longrightarrow> quiet_step w w'"
  by (simp add: quiet_step_def)

lemma quiet_trans: "quiet_step a b \<Longrightarrow> quiet_step b c \<Longrightarrow> quiet_step a c"
  by (auto simp: quiet_step_def)

lemma quiet_logger: "\<not> job_start e \<Longrightarrow> quiet_step w w' \<Longrightarrow> quiet_step w (logger e w')"
  by (auto simp: quiet_step_def)

lemma quiet_set: "quiet_step w w' \<Longrightarrow> set (log w) \<subseteq> set (log w')"
  by (auto simp: quiet_step_def)

lemma quiet_log_payment_event: "quiet_step w (snd (log_payment_event now ev w))"
  by (rule quiet_same_log) simp

lemma quiet_create_recurring_payment: "quiet_step w (snd (create_recurring_payment cfg gw od w))"
  by (auto simp: create_recurring_payment_def Let_def intro: quiet_logger
      split: http_outcome.splits response_body.splits)

lemma quiet_cancel: "quiet_step w (snd (cancel_subscription now sid reason w))"
  by (rule quiet_same_log) (simp add: cancel_subscription_effect)

lemma quiet_renewal: "quiet_step w (snd (process_subscription_renewal cfg gw clk r w))"
proof -
  let ?sid = "s_id (sub r)"
  let ?w1 = "logger (InfoProcessingRenewal ?sid) w"
  let ?w2 = "snd (create_renewal_order (db_now clk) r (price r) ?w1)"
  let ?w3 = "logger (InfoCreatedOrder (order_seq w)) ?w2"
  let ?c = "create_recurring_payment cfg gw (renewal_order_data r (order_seq w)) ?w3"
  have 1: "quiet_step w ?w1"
    by (rule quiet_logger) simp_all
  have 2: "quiet_step ?w1 ?w2"
    by (rule quiet_same_log) simp
  have 3: "quiet_step ?w2 ?w3"
    by (rule quiet_logger) simp_all
  have 4: "quiet_step ?w3 (snd ?c)"
    by (rule quiet_create_recurring_payment)
  have w4: "quiet_step w (snd ?c)"
    using 1 2 3 4 by (blast intro: quiet_trans)
  show ?thesis
  proof (cases "fst ?c")
    case (Inl e)
    then show ?thesis
      using w4 by (simp add: process_subscription_renewal_def Let_def split_beta quiet_logger)
  next
    case (Inr body)
    let ?w6 = "update_subscription_period (db_now clk) ?sid (py_now clk + interval_length (interval r))
                 (update_order_status (db_now clk) (order_seq w) ''PROCESSING''
                    (json_get body ''netopia_order_id'') (snd ?c))"
    let ?l = "log_payment_event (db_now clk) (renewal_success_event r (order_seq w) body) ?w6"
    have "quiet_step (snd ?c) ?w6"
      by (rule quiet_same_log) simp
    then have "quiet_step w (snd ?l)"
      using w4 quiet_log_payment_event by (blast intro: quiet_trans)
    then show ?thesis
      using Inr
      by (cases "fst ?l") (simp_all add: process_subscription_renewal_def Let_def split_beta quiet_logger)
  qed
qed

lemma quiet_trial:
  "quiet_step (logger (InfoProcessingTrialExpiration (s_id (sub r))) w)
     (snd (process_trial_expiration cfg gw clk r w))"
proof -
  let ?sid = "s_id (sub r)"
  let ?w1 = "logger (InfoProcessingTrialExpiration ?sid) w"
  show ?thesis
  proof (cases "has_token r")
    case False
    let ?c = "cancel_subscription (db_now clk) ?sid ''Trial expired - no payment method'' ?w1"
    have "quiet_step ?w1 (snd ?c)" by (rule quiet_cancel)
    then show ?thesis
      using False
      by (cases "fst ?c") (simp_all add: process_trial_expiration_def Let_def split_beta quiet_logger)
  next
    case True
    let ?p = "process_subscription_renewal cfg gw clk r ?w1"
    have p: "quiet_step ?w1 (snd ?p)" by (rule quiet_renewal)
    show ?thesis
    proof (cases "fst ?p")
      case (Inr u)
      then show ?thesis
        using True p by (simp add: process_trial_expiration_def Let_def split_beta quiet_logger)
    next
      case (Inl e)
      let ?c = "cancel_subscription (db_now clk) ?sid (''Trial expired - charge failed: '' @ py_str e) (snd ?p)"
      have "quiet_step ?w1 (snd ?c)"
        using p quiet_cancel by (blast intro: quiet_trans)
      then show ?thesis
        using True Inl
        by (cases "fst ?c") (simp_all add: process_trial_expiration_def Let_def split_beta quiet_logger)
    qed
  qed
qed

lemma quiet_retry:
  "quiet_step (logger (InfoRetrying (payment_order_id p) (payment_retry_count p + 1)) w)
     (snd (retry_payment clk p w))"
proof -
  let ?w1 = "logger (InfoRetrying (payment_order_id p) (payment_retry_count p + 1)) w"
  let ?l = "log_payment_event (db_now clk) (retry_event p) ?w1"
  have "quiet_step ?w1 (snd ?l)" by (rule quiet_log_payment_event)
  then show ?thesis
    by (cases "fst ?l") (simp_all add: retry_payment_def Let_def split_beta quiet_logger)
qed


lemma quiet_expire_all: "quiet_step w (expire_all cfg gw clk rs w)"
proof (induction rs arbitrary: w)
  case Nil
  then show ?case by simp
next
  case (Cons r rs)
  let ?p = "process_trial_expiration cfg gw clk r w"
  have "quiet_step w (logger (InfoProcessingTrialExpiration (s_id (sub r))) w)"
    by (rule quiet_logger) simp_all
  then have p: "quiet_step w (snd ?p)"
    using quiet_trial by (blast intro: quiet_trans)
  show ?case
  proof (cases "fst ?p")
    case (Inl e)
    have "quiet_step w (logger (ErrorTrialFailed (s_id (sub r)) e) (snd ?p))"
      using p by (simp add: quiet_logger)
    then have "quiet_step w (expire_all cfg gw clk rs (logger (ErrorTrialFailed (s_id (sub r)) e) (snd ?p)))"
      using Cons.IH by (blast intro: quiet_trans)
    then show ?thesis
      using Inl by (simp add: split_beta)
  next
    case (Inr u)
    have "quiet_step w (expire_all cfg gw clk rs (snd ?p))"
      using p Cons.IH by (blast intro: quiet_trans)
    then show ?thesis
      using Inr by (simp add: split_beta)
  qed
qed

lemma expire_all_processes:
  "r \<in> set rs \<Longrightarrow>
   InfoProcessingTrialExpiration (s_id (sub r)) \<in> set (log (expire_all cfg gw clk rs w))"
proof (induction rs arbitrary: w)
  case Nil
  then show ?case by simp
next
  case (Cons a rs)
  let ?p = "process_trial_expiration cfg gw clk a w"
  let ?next = "case fst ?p of Inl e \<Rightarrow> logger (ErrorTrialFailed (s_id (sub a)) e) (snd ?p)
                 | Inr u \<Rightarrow> snd ?p"
  have unfold: "expire_all cfg gw clk (a # rs) w = expire_all cfg gw clk rs ?next"
    by (simp add: split_beta split: sum.splits)
  show ?case
  proof (cases "r = a")
    case True
    have "InfoProcessingTrialExpiration (s_id (sub a)) \<in>
            set (log (logger (InfoProcessingTrialExpiration (s_id (sub a))) w))"
      by simp
    then have "InfoProcessingTrialExpiration (s_id (sub a)) \<in> set (log (snd ?p))"
      using quiet_set [OF quiet_trial] by blast
    then have "InfoProcessingTrialExpiration (s_id (sub a)) \<in> set (log ?next)"
      by (simp split: sum.splits)
    then show ?thesis
      using True quiet_set [OF quiet_expire_all] unfold by fastforce
  next
    case False
    with Cons.prems have "r \<in> set rs" by simp
    then show ?thesis
      using Cons.IH unfold by simp
  qed
qed

lemma quiet_retry_all: "quiet_step w (retry_all clk ps w)"
proof (induction ps arbitrary: w)
  case Nil
  then show ?case by simp
next
  case (Cons p ps)
  let ?p = "retry_payment clk p w"
  have "quiet_step w (logger (InfoRetrying (payment_order_id p) (payment_retry_count p + 1)) w)"
    by (rule quiet_logger) simp_all
  then have p: "quiet_step w (snd ?p)"
    using quiet_retry by (blast intro: quiet_trans)
  show ?case
  proof (cases "fst ?p")
    case (Inl e)
    have "quiet_step w (logger (ErrorRetryPaymentFailed (payment_order_id p) e) (snd ?p))"
      using p by (simp add: quiet_logger)
    then have "quiet_step w (retry_all clk ps (logger (ErrorRetryPaymentFailed (payment_order_id p) e) (snd ?p)))"
      using Cons.IH by (blast intro: quiet_trans)
    then show ?thesis
      using Inl by (simp add: split_beta)
  next
    case (Inr u)
    have "quiet_step w (retry_all clk ps (snd ?p))"
      using p Cons.IH by (blast intro: quiet_trans)
    then show ?thesis
      using Inr by (simp add: split_beta)
  qed
qed

lemma retry_all_processes:
  "p \<in> set ps \<Longrightarrow>
   InfoRetrying (payment_order_id p) (payment_retry_count p + 1) \<in> set (log (retry_all clk ps w))"
proof (induction ps arbitrary: w)
  case Nil
  then show ?case by simp
next
  case (Cons a ps)
  let ?p = "retry_payment clk a w"
  let ?next = "case fst ?p of Inl e \<Rightarrow> logger (ErrorRetryPaymentFailed (payment_order_id a) e) (snd ?p)
                 | Inr u \<Rightarrow> snd ?p"
  have unfold: "retry_all clk (a # ps) w = retry_all clk ps ?next"
    by (simp add: split_beta split: sum.splits)
  show ?case
  proof (cases "p = a")
    case True
    have "InfoRetrying (payment_order_id a) (payment_retry_count a + 1) \<in>
            set (log (logger (InfoRetrying (payment_order_id a) (payment_retry_count a + 1)) w))"
      by simp
    then have "InfoRetrying (payment_order_id a) (payment_retry_count a + 1) \<in> set (log (snd ?p))"
      using quiet_set [OF quiet_retry] by blast
    then have "InfoRetrying (payment_order_id a) (payment_retry_count a + 1) \<in> set (log ?next)"
      by (simp split: sum.splits)
    then show ?thesis
      using True quiet_set [OF quiet_retry_all] unfold by fastforce
  next
    case False
    with Cons.prems have "p \<in> set ps" by simp
    then show ?thesis
      using Cons.IH unfold by simp
  qed
qed

lemma quiet_renew_item: "quiet_step w (snd (renew_item cfg gw clk r w))"
proof -
  let ?p = "process_subscription_renewal cfg gw clk r w"
  have p: "quiet_step w (snd ?p)" by (rule quiet_renewal)
  show ?thesis
  proof (cases "fst ?p")
    case (Inr u)
    then show ?thesis using p by (simp add: renew_item_def split_beta)
  next
    case (Inl e)
    have "quiet_step w (logger (ErrorRenewalFailed (s_id (sub r)) e) (snd ?p))"
      using p by (simp add: quiet_logger)
    then have "quiet_step w (snd (log_payment_event (db_now clk) (renewal_failed_event r e)
                 (logger (ErrorRenewalFailed (s_id (sub r)) e) (snd ?p))))"
      using quiet_log_payment_event by (blast intro: quiet_trans)
    then show ?thesis using Inl by (simp add: renew_item_def split_beta)
  qed
qed

lemma quiet_renew_all: "quiet_step w (snd (renew_all cfg gw clk rs w))"
proof (induction rs arbitrary: w)
  case Nil
  then show ?case by simp
next
  case (Cons r rs)
  let ?p = "renew_item cfg gw clk r w"
  have p: "quiet_step w (snd ?p)" by (rule quiet_renew_item)
  show ?case
  proof (cases "fst ?p")
    case (Inl e)
    then show ?thesis using p by (simp add: split_beta)
  next
    case (Inr u)
    have "quiet_step w (snd (renew_all cfg gw clk rs (snd ?p)))"
      using p Cons.IH by (blast intro: quiet_trans)
    then show ?thesis using Inr by (simp add: split_beta)
  qed
qed

lemma job_opens:
  assumes "quiet_step (logger (f n) (logger m w)) w'" and "\<not> job_start (f n)"
  shows "\<exists>xs. log w' = log w @ m # xs \<and> filter job_start xs = []"
  using assms by (auto simp: quiet_step_def)

lemma billing_log:
  "\<exists>xs. log (process_recurring_billing cfg gw clk w) = log w @ InfoProcessingBilling # xs \<and>
        filter job_start xs = []"
proof -
  let ?w1 = "logger InfoProcessingBilling w"
  let ?due = "get_due_subscriptions ?w1 (db_now clk)"
  let ?w2 = "logger (InfoFoundDue (length ?due)) ?w1"
  let ?r = "renew_all cfg gw clk ?due ?w2"
  have r: "quiet_step ?w2 (snd ?r)" by (rule quiet_renew_all)
  have "quiet_step ?w2 (process_recurring_billing cfg gw clk w)"
    using r by (cases "fst ?r") (simp_all add: process_recurring_billing_def Let_def split_beta quiet_logger)
  then show ?thesis
    by (rule job_opens) simp
qed

lemma trials_log:
  "\<exists>xs. log (process_trial_periods cfg gw clk w) = log w @ InfoProcessingTrials # xs \<and>
        filter job_start xs = []"
proof -
  let ?w1 = "logger InfoProcessingTrials w"
  let ?ts = "get_trial_subscriptions ?w1 (db_now clk)"
  let ?w2 = "logger (InfoFoundTrials (length ?ts)) ?w1"
  have "quiet_step ?w2 (process_trial_periods cfg gw clk w)"
    by (simp add: process_trial_periods_def Let_def quiet_expire_all)
  then show ?thesis
    by (rule job_opens) simp
qed

lemma retries_log:
  "\<exists>xs. log (process_payment_retries cfg clk w) = log w @ InfoProcessingRetries # xs \<and>
        filter job_start xs = []"
proof -
  let ?w1 = "logger InfoProcessingRetries w"
  let ?ps = "get_failed_payments cfg ?w1 (db_now clk)"
  let ?w2 = "logger (InfoFoundFailed (length ?ps)) ?w1"
  have "quiet_step ?w2 (process_payment_retries cfg clk w)"
    by (simp add: process_payment_retries_def Let_def quiet_retry_all)
  then show ?thesis
    by (rule job_opens) simp
qed

lemma queries_ignore_log [simp]:
  "get_trial_subscriptions (logger e w) now = get_trial_subscriptions w now"
  "get_failed_payments cfg (logger e w) now = get_failed_payments cfg w now"
  by (simp_all add: get_trial_subscriptions_def get_failed_payments_def joined_subscriptions_def
        joined_payment_logs_def)

lemma trials_process_all:
  "r \<in> set (get_trial_subscriptions w (db_now clk)) \<Longrightarrow>
   InfoProcessingTrialExpiration (s_id (sub r)) \<in> set (log (process_trial_periods cfg gw clk w))"
  by (simp add: process_trial_periods_def Let_def expire_all_processes)

lemma retries_process_all:
  "p \<in> set (get_failed_payments cfg w (db_now clk)) \<Longrightarrow>
   InfoRetrying (payment_order_id p) (payment_retry_count p + 1) \<in>
     set (log (process_payment_retries cfg clk w))"
  by (simp add: process_payment_retries_def Let_def retry_all_processes)





text \<open>
  The same defect seen from the loop of the billing job: when the charge of the first
  due subscription fails, the handler's exception ends the loop, and the subscriptions
  after it are not processed in this run.
\<close>

lemma billing_batch_stops_after_failed_charge:
  assumes "fst (create_recurring_payment cfg gw (renewal_order_data r (order_seq w)) w) = Inl e"
    and "current_period_end (sub r) = Some t"
  shows "renew_all cfg gw clk (r # rest) w = renew_item cfg gw clk r w"
    and "fst (renew_all cfg gw clk (r # rest) w) =
           Inl (PyExc TypeError ''Object of type datetime is not JSON serializable'')"
proof -
  have f: "fst (renew_item cfg gw clk r w) =
           Inl (PyExc TypeError ''Object of type datetime is not JSON serializable'')"
    using assms by (rule renew_item_after_failure(1))
  then show "renew_all cfg gw clk (r # rest) w = renew_item cfg gw clk r w"
    by (cases "renew_item cfg gw clk r w") simp
  with f show "fst (renew_all cfg gw clk (r # rest) w) =
           Inl (PyExc TypeError ''Object of type datetime is not JSON serializable'')"
    by simp
qed

end
